theory Spec2Isabelle
  imports Main
begin

section \<open>Event decoder (script.py, class EventParser)\<close>

text \<open>
  Python's \<open>str\<close> on an \<open>int\<close>: the decimal digits, most significant first, with a
  leading minus sign for a negative number. Python integers are unbounded, so the
  model works on \<open>nat\<close> and \<open>int\<close>.
\<close>

definition digit_char :: "nat \<Rightarrow> char" where
  "digit_char d = ''0123456789'' ! d"

fun str_nat :: "nat \<Rightarrow> string" where
  "str_nat n = (if n < 10 then [digit_char n] else str_nat (n div 10) @ [digit_char (n mod 10)])"

declare str_nat.simps [simp del]

definition str_int :: "int \<Rightarrow> string" where
  "str_int i = (if i < 0 then CHR ''-'' # str_nat (nat (- i)) else str_nat (nat i))"

text \<open>
  Reading a decimal string back: the value a JSON consumer recovers from the
  serialized amount. \<open>None\<close> when the text is not a plain decimal numeral.
\<close>

definition is_digit :: "char \<Rightarrow> bool" where
  "is_digit c = (c \<in> set ''0123456789'')"

definition digit_val :: "char \<Rightarrow> nat" where
  "digit_val c = length (takeWhile (\<lambda>x. x \<noteq> c) ''0123456789'')"

fun value_digits :: "nat \<Rightarrow> string \<Rightarrow> nat" where
  "value_digits acc [] = acc"
| "value_digits acc (c # cs) = value_digits (10 * acc + digit_val c) cs"

definition decimal_nat :: "string \<Rightarrow> nat option" where
  "decimal_nat s = (if s \<noteq> [] \<and> list_all is_digit s then Some (value_digits 0 s) else None)"

definition decimal_int :: "string \<Rightarrow> int option" where
  "decimal_int s =
     (case s of
        [] \<Rightarrow> None
      | c # cs \<Rightarrow>
          if c = CHR ''-'' then map_option (\<lambda>n. - int n) (decimal_nat cs)
          else map_option int (decimal_nat s))"

text \<open>
  The raw log entry (web3's \<open>LogReceipt\<close>) and the decoded event (web3's
  \<open>EventData\<close>). The transaction hash is a byte string; \<open>HexBytes.hex()\<close>, in the
  hexbytes release that web3 6 requires, renders it as \<open>0x\<close> followed by two
  hexadecimal digits a byte.
\<close>

record LogReceipt =
  lr_transactionHash :: "nat list"
  lr_blockNumber :: int
  lr_topics :: "nat list list"
  lr_data :: "nat list"

record EventArgs =
  ea_token :: string
  ea_sender :: string
  ea_recipient :: string
  ea_amount :: int
  ea_destinationChainId :: int

record EventData =
  ed_transactionHash :: "nat list"
  ed_blockNumber :: int
  ed_event :: string
  ed_args :: EventArgs

definition hex_digit :: "nat \<Rightarrow> char" where
  "hex_digit d = ''0123456789abcdef'' ! d"

definition hex_digits :: "nat list \<Rightarrow> string" where
  "hex_digits bs = concat (map (\<lambda>b. [hex_digit ((b mod 256) div 16), hex_digit (b mod 16)]) bs)"

definition hex :: "nat list \<Rightarrow> string" where
  "hex bs = ''0x'' @ hex_digits bs"

text \<open>
  The dictionary that \<open>parse_tokens_locked_event\<close> returns. Its \<open>amount\<close> is a
  string (line 136: \<open>str(processed_log.args.amount)\<close>); the two other numbers stay
  integers.
\<close>

record ParsedArgs =
  pa_token :: string
  pa_sender :: string
  pa_recipient :: string
  pa_amount :: string
  pa_destinationChainId :: int

record ParsedEvent =
  pe_transactionHash :: string
  pe_blockNumber :: int
  pe_event :: string
  pe_args :: ParsedArgs

text \<open>
  \<open>process_log\<close> is web3's ABI decoder; it is a parameter here. It either returns
  the decoded event or raises (wrong number of topics, wrong signature topic,
  payload that does not decode): \<open>Inl\<close> carries the exception's message.
\<close>

type_synonym process_log_fn = "LogReceipt \<Rightarrow> string + EventData"

text \<open>
  \<open>parse_tokens_locked_event\<close> (lines 115-142). The \<open>try\<close> covers the call of
  \<open>process_log\<close> and the construction of the dictionary; \<open>except Exception\<close> logs
  and returns the empty dictionary \<open>{}\<close>, which is \<open>None\<close> here.
\<close>

definition parse_tokens_locked_event :: "process_log_fn \<Rightarrow> LogReceipt \<Rightarrow> ParsedEvent option" where
  "parse_tokens_locked_event process_log event_log =
     (case process_log event_log of
        Inl e \<Rightarrow> None
      | Inr processed_log \<Rightarrow>
          Some \<lparr> pe_transactionHash = hex (ed_transactionHash processed_log),
                 pe_blockNumber = ed_blockNumber processed_log,
                 pe_event = ed_event processed_log,
                 pe_args = \<lparr> pa_token = ea_token (ed_args processed_log),
                             pa_sender = ea_sender (ed_args processed_log),
                             pa_recipient = ea_recipient (ed_args processed_log),
                             pa_amount = str_int (ea_amount (ed_args processed_log)),
                             pa_destinationChainId = ea_destinationChainId (ed_args processed_log) \<rparr> \<rparr>)"

text \<open>
  The body that \<open>session.post(..., json=event_data)\<close> serializes: a JSON object whose
  members are strings and integers. Python's \<open>json\<close> writes an \<open>int\<close> with all its
  digits and a \<open>str\<close> as a JSON string.
\<close>

datatype json = JString string | JInt int | JObject "(string \<times> json) list"

definition event_json :: "ParsedEvent \<Rightarrow> json" where
  "event_json r =
     JObject [(''transactionHash'', JString (pe_transactionHash r)),
              (''blockNumber'', JInt (pe_blockNumber r)),
              (''event'', JString (pe_event r)),
              (''args'', JObject [(''token'', JString (pa_token (pe_args r))),
                                  (''sender'', JString (pa_sender (pe_args r))),
                                  (''recipient'', JString (pa_recipient (pe_args r))),
                                  (''amount'', JString (pa_amount (pe_args r))),
                                  (''destinationChainId'', JInt (pa_destinationChainId (pe_args r)))])]"

fun json_member :: "string \<Rightarrow> json \<Rightarrow> json option" where
  "json_member k (JObject kvs) = map_of kvs k"
| "json_member k _ = None"

definition json_amount :: "json \<Rightarrow> json option" where
  "json_amount j = (case json_member ''args'' j of None \<Rightarrow> None | Some a \<Rightarrow> json_member ''amount'' a)"

text \<open>
  A stand-in for web3's decoder (\<open>get_event_data\<close>), used for concrete runs only. It
  makes the checks of the decoder in their order: a log of a non-anonymous event has a
  first topic, the first topic is the Keccak-256 hash of the event's signature
  \<open>TokensLocked(address,address,address,uint256,uint256)\<close>, the remaining topics are
  as many as the indexed fields (two), and the payload has the three 32-byte words of
  the other fields. The payload words are read as big-endian numbers; the padding of the
  addresses is not checked.
\<close>

fun be_value :: "nat \<Rightarrow> nat list \<Rightarrow> nat" where
  "be_value acc [] = acc"
| "be_value acc (b # bs) = be_value (256 * acc + b mod 256) bs"

definition TOKENS_LOCKED_TOPIC :: "nat list" where
  "TOKENS_LOCKED_TOPIC =
     [15, 122, 233, 137, 31, 229, 184, 119, 255, 221, 51, 98, 25, 112, 219, 62, 93, 22, 33, 133, 145, 79, 29, 180, 61, 162, 71, 76, 159, 188, 41, 72]"

definition sample_process_log :: process_log_fn where
  "sample_process_log l =
     (if lr_topics l = [] then Inl ''Expected non-anonymous event to have 1 or more topics''
      else if hd (lr_topics l) \<noteq> TOKENS_LOCKED_TOPIC
      then Inl ''The event signature did not match the provided ABI''
      else if length (tl (lr_topics l)) \<noteq> 2
      then Inl (''Expected 2 log topics. Got '' @ str_nat (length (tl (lr_topics l))))
      else if length (lr_data l) \<noteq> 96 then Inl ''Insufficient data bytes''
      else Inr \<lparr> ed_transactionHash = lr_transactionHash l,
                 ed_blockNumber = lr_blockNumber l,
                 ed_event = ''TokensLocked'',
                 ed_args = \<lparr> ea_token = ''0x'' @ hex_digits (drop 12 (lr_topics l ! 1)),
                             ea_sender = ''0x'' @ hex_digits (drop 12 (lr_topics l ! 2)),
                             ea_recipient = ''0x'' @ hex_digits (take 20 (drop 12 (lr_data l))),
                             ea_amount = int (be_value 0 (take 32 (drop 32 (lr_data l)))),
                             ea_destinationChainId = int (be_value 0 (drop 64 (lr_data l))) \<rparr> \<rparr>)"

definition sample_log :: "nat list \<Rightarrow> LogReceipt" where
  "sample_log amount_word =
     \<lparr> lr_transactionHash = [171, 205, 239, 1],
       lr_blockNumber = 100,
       lr_topics = [TOKENS_LOCKED_TOPIC,
                    [0, 0, 0, 0, 0, 0, 0, 0, 0, 0, 0, 0, 17, 17, 17, 17, 17, 17, 17, 17, 17, 17, 17, 17, 17, 17, 17, 17, 17, 17, 17, 17],
                    [0, 0, 0, 0, 0, 0, 0, 0, 0, 0, 0, 0, 34, 34, 34, 34, 34, 34, 34, 34, 34, 34, 34, 34, 34, 34, 34, 34, 34, 34, 34, 34]],
       lr_data = [0, 0, 0, 0, 0, 0, 0, 0, 0, 0, 0, 0, 51, 51, 51, 51, 51, 51, 51, 51, 51, 51, 51, 51, 51, 51, 51, 51, 51, 51, 51, 51]
                 @ amount_word
                 @ [0, 0, 0, 0, 0, 0, 0, 0, 0, 0, 0, 0, 0, 0, 0, 0, 0, 0, 0, 0, 0, 0, 0, 0, 0, 0, 0, 0, 0, 0, 0, 137] \<rparr>"

definition amount_word_2_200 :: "nat list" where
  "amount_word_2_200 = [0, 0, 0, 0, 0, 0, 1, 0, 0, 0, 0, 0, 0, 0, 0, 0, 0, 0, 0, 0, 0, 0, 0, 0, 0, 0, 0, 0, 0, 0, 0, 0]"

section \<open>Observable effects\<close>

text \<open>
  What the program does to the outside is recorded as a list of events, oldest first: a
  log line (its level and the fixed part of its message), a call of \<open>time.sleep\<close>
  with its duration, one HTTP request put on the wire (numbered over the life of the
  session) and one attempt to open the node connection.
\<close>

datatype level = INFO | WARNING | ERROR | CRITICAL

datatype event = EvLog level string | EvSleep nat | EvPost nat | EvConnect nat

datatype py_exception = ConnectionError | ValueError | LibraryError

section \<open>Delivery client (script.py, class RelayerService)\<close>

text \<open>
  The source builds \<open>Retry(total=5, backoff_factor=1, status_forcelist=[502, 503, 504])\<close>,
  mounts an \<open>HTTPAdapter\<close> with it on the prefix \<open>https://\<close> of a fresh
  \<open>requests.Session\<close>, and sends with \<open>session.post\<close>. What these calls do is
  the behaviour of the libraries requests and urllib3; the definitions below follow
  \<open>urllib3.util.retry.Retry\<close> (\<open>is_retry\<close>, \<open>increment\<close>, \<open>is_exhausted\<close>,
  \<open>get_backoff_time\<close>, \<open>sleep\<close>), \<open>HTTPConnectionPool.urlopen\<close>,
  \<open>Session.mount\<close>, \<open>Session.get_adapter\<close> and \<open>Response.raise_for_status\<close>
  method by method. A retry counter is \<open>None\<close>, \<open>False\<close> or an integer. The total
  is an integer in both adapters of this program (5 and 0).
\<close>

datatype count = CNone | CFalse | CInt int

record Retry =
  rt_total :: int
  rt_connect :: count
  rt_read :: count
  rt_redirect :: count
  rt_status :: count
  rt_other :: count
  rt_allowed_methods :: "string list"
  rt_status_forcelist :: "int list"
  rt_backoff_factor :: nat
  rt_respect_retry_after_header :: bool
  rt_history :: nat

definition DEFAULT_ALLOWED_METHODS :: "string list" where
  "DEFAULT_ALLOWED_METHODS = [''HEAD'', ''GET'', ''PUT'', ''DELETE'', ''OPTIONS'', ''TRACE'']"

definition RETRY_AFTER_STATUS_CODES :: "int list" where
  "RETRY_AFTER_STATUS_CODES = [413, 429, 503]"

definition DEFAULT_BACKOFF_MAX :: nat where
  "DEFAULT_BACKOFF_MAX = 120"

text \<open>The defaults of \<open>Retry.__init__\<close>; \<open>rt_history\<close> is the length of the history.\<close>

definition Retry_defaults :: Retry where
  "Retry_defaults =
     \<lparr> rt_total = 10, rt_connect = CNone, rt_read = CNone, rt_redirect = CNone,
       rt_status = CNone, rt_other = CNone,
       rt_allowed_methods = DEFAULT_ALLOWED_METHODS,
       rt_status_forcelist = [],
       rt_backoff_factor = 0,
       rt_respect_retry_after_header = True,
       rt_history = 0 \<rparr>"

text \<open>Line 160 of script.py.\<close>

definition retries :: Retry where
  "retries = Retry_defaults \<lparr> rt_total := 5, rt_backoff_factor := 1,
                               rt_status_forcelist := [502, 503, 504] \<rparr>"

text \<open>
  \<open>HTTPAdapter()\<close> without arguments, as \<open>Session.__init__\<close> mounts it:
  \<open>Retry(0, read=False)\<close>.
\<close>

definition default_max_retries :: Retry where
  "default_max_retries = Retry_defaults \<lparr> rt_total := 0, rt_read := CFalse \<rparr>"

text \<open>
  One request on the wire either fails before a response arrives or yields a
  response. \<open>ConnectFailure\<close> stands for the errors urllib3 counts as connection
  errors (\<open>ConnectTimeoutError\<close>, \<open>NewConnectionError\<close>), \<open>ReadFailure\<close> for
  \<open>ReadTimeoutError\<close> and \<open>ProtocolError\<close>, \<open>OtherFailure\<close> for the rest. Of a
  response the model keeps the status code, the seconds of a \<open>Retry-After\<close> header
  when there is one, and whether the body parses as JSON. Redirects are not modelled:
  a response has no \<open>Location\<close> header.
\<close>

datatype http_error = ConnectFailure | ReadFailure | OtherFailure

record response =
  status_code :: int
  retry_after :: "nat option"
  body_is_json :: bool

datatype attempt = Failed http_error | Responded response

datatype raised = Reraised http_error | MaxRetryError

definition is_method_retryable :: "Retry \<Rightarrow> string \<Rightarrow> bool" where
  "is_method_retryable r method =
     (if rt_allowed_methods r \<noteq> [] \<and> method \<notin> set (rt_allowed_methods r) then False else True)"

definition is_retry :: "Retry \<Rightarrow> string \<Rightarrow> int \<Rightarrow> bool \<Rightarrow> bool" where
  "is_retry r method code has_retry_after =
     (if \<not> is_method_retryable r method then False
      else if rt_status_forcelist r \<noteq> [] \<and> code \<in> set (rt_status_forcelist r) then True
      else (rt_total r \<noteq> 0 \<and> rt_respect_retry_after_header r \<and> has_retry_after
            \<and> code \<in> set RETRY_AFTER_STATUS_CODES))"

text \<open>
  \<open>is_exhausted\<close>: \<open>filter(None, ...)\<close> drops \<open>None\<close>, \<open>False\<close> and \<open>0\<close>; the
  counters that remain are compared with 0 through their minimum.
\<close>

fun truthy_counts :: "count list \<Rightarrow> int list" where
  "truthy_counts [] = []"
| "truthy_counts (CInt n # cs) = (if n \<noteq> 0 then n # truthy_counts cs else truthy_counts cs)"
| "truthy_counts (_ # cs) = truthy_counts cs"

definition is_exhausted :: "Retry \<Rightarrow> bool" where
  "is_exhausted r =
     (let retry_counts = truthy_counts [CInt (rt_total r), rt_connect r, rt_read r,
                                         rt_redirect r, rt_status r, rt_other r]
      in if retry_counts = [] then False else Min (set retry_counts) < 0)"

fun decrement :: "count \<Rightarrow> count" where
  "decrement (CInt n) = CInt (n - 1)"
| "decrement c = c"

text \<open>
  \<open>increment\<close>: called with an error (no response arrived) or with a response that
  \<open>is_retry\<close> accepted. It returns the new \<open>Retry\<close> or raises.
\<close>

definition increment :: "Retry \<Rightarrow> string \<Rightarrow> http_error option \<Rightarrow> raised + Retry" where
  "increment r method error =
     (let new_total = r \<lparr> rt_total := rt_total r - 1, rt_history := rt_history r + 1 \<rparr>;
          finish = (\<lambda>new_retry. if is_exhausted new_retry then Inl MaxRetryError else Inr new_retry)
      in case error of
           Some ConnectFailure \<Rightarrow>
             if rt_connect r = CFalse then Inl (Reraised ConnectFailure)
             else finish (new_total \<lparr> rt_connect := decrement (rt_connect r) \<rparr>)
         | Some ReadFailure \<Rightarrow>
             if rt_read r = CFalse \<or> \<not> is_method_retryable r method then Inl (Reraised ReadFailure)
             else finish (new_total \<lparr> rt_read := decrement (rt_read r) \<rparr>)
         | Some OtherFailure \<Rightarrow> finish (new_total \<lparr> rt_other := decrement (rt_other r) \<rparr>)
         | None \<Rightarrow> finish (new_total \<lparr> rt_status := decrement (rt_status r) \<rparr>))"

definition get_backoff_time :: "Retry \<Rightarrow> nat" where
  "get_backoff_time r =
     (if rt_history r \<le> 1 then 0
      else min DEFAULT_BACKOFF_MAX (rt_backoff_factor r * 2 ^ (rt_history r - 1)))"

text \<open>
  \<open>Retry.sleep\<close>: the \<open>Retry-After\<close> header of the response when it is honoured and
  present and not zero, the backoff otherwise; \<open>time.sleep\<close> is not called for a
  backoff of 0.
\<close>

definition sleep :: "Retry \<Rightarrow> response option \<Rightarrow> event list" where
  "sleep r resp =
     (case (if rt_respect_retry_after_header r then Option.bind resp retry_after else None) of
        Some (Suc t) \<Rightarrow> [EvSleep (Suc t)]
      | _ \<Rightarrow> (if get_backoff_time r = 0 then [] else [EvSleep (get_backoff_time r)]))"

text \<open>
  \<open>urlopen\<close>, the retry loop of urllib3, for the method POST. The \<open>n\<close>-th request
  of the session gets the outcome \<open>http n\<close>. The result is the response or the
  exception that leaves \<open>urlopen\<close>, the events, and the number of the next request.
  The recursion ends because every retry lowers the total and a negative total is
  exhausted.
\<close>

lemma total_not_exhausted: "\<not> is_exhausted x \<Longrightarrow> 0 \<le> rt_total x"
  by (rule ccontr) (auto simp: is_exhausted_def Let_def Min_less_iff)

lemma increment_total:
  assumes "increment r method error = Inr r'"
  shows "rt_total r' = rt_total r - 1 \<and> 0 \<le> rt_total r'"
  using assms unfolding increment_def Let_def
  by (auto split: option.splits http_error.splits if_splits dest!: total_not_exhausted)

function urlopen :: "(nat \<Rightarrow> attempt) \<Rightarrow> Retry \<Rightarrow> nat \<Rightarrow> (raised + response) \<times> event list \<times> nat" where
  "urlopen http r n =
     (case http n of
        Failed e \<Rightarrow>
          (case increment r ''POST'' (Some e) of
             Inl x \<Rightarrow> (Inl x, [EvPost n], Suc n)
           | Inr r' \<Rightarrow>
               (case urlopen http r' (Suc n) of
                  (res, evs, n') \<Rightarrow> (res, EvPost n # sleep r' None @ evs, n')))
      | Responded resp \<Rightarrow>
          if is_retry r ''POST'' (status_code resp) (retry_after resp \<noteq> None)
          then (case increment r ''POST'' None of
                  Inl x \<Rightarrow> (Inl x, [EvPost n], Suc n)
                | Inr r' \<Rightarrow>
                    (case urlopen http r' (Suc n) of
                       (res, evs, n') \<Rightarrow> (res, EvPost n # sleep r' (Some resp) @ evs, n')))
          else (Inr resp, [EvPost n], Suc n))"
  by pat_completeness auto
termination
proof (relation "measure (\<lambda>(http, r, n). nat (rt_total r))")
  show "wf (measure (\<lambda>(http, r, n). nat (rt_total r)))" by simp
next
  fix http :: "nat \<Rightarrow> attempt" and r n e r'
  assume "increment r ''POST'' (Some e) = Inr r'"
  then show "((http, r', Suc n), (http, r, n)) \<in> measure (\<lambda>(http, r, n). nat (rt_total r))"
    using increment_total [of r "''POST''" "Some e" r'] by simp
next
  fix http :: "nat \<Rightarrow> attempt" and r n r'
  assume "increment r ''POST'' None = Inr r'"
  then show "((http, r', Suc n), (http, r, n)) \<in> measure (\<lambda>(http, r, n). nat (rt_total r))"
    using increment_total [of r "''POST''" None r'] by simp
qed

declare urlopen.simps [simp del]

text \<open>
  The session's adapters: an ordered dictionary from prefix to adapter; an adapter is
  its \<open>max_retries\<close>. \<open>Session.mount\<close> stores the adapter under the prefix and moves
  every shorter prefix behind it; \<open>Session.get_adapter\<close> returns the first adapter
  whose prefix the lower-cased URL starts with, and raises \<open>InvalidSchema\<close> when
  there is none.
\<close>

type_synonym adapters = "(string \<times> Retry) list"

text \<open>
  \<open>str.lower()\<close> on ASCII text: the strings of this model (URLs, unit names) are ASCII.
  Python also lower-cases letters outside ASCII.
\<close>

definition ascii_lower :: "char \<Rightarrow> char" where
  "ascii_lower c =
     (case map_of (zip ''ABCDEFGHIJKLMNOPQRSTUVWXYZ'' ''abcdefghijklmnopqrstuvwxyz'') c of
        Some l \<Rightarrow> l
      | None \<Rightarrow> c)"

definition lower :: "string \<Rightarrow> string" where
  "lower s = map ascii_lower s"

definition startswith :: "string \<Rightarrow> string \<Rightarrow> bool" where
  "startswith s p = (take (length p) s = p)"

definition mount :: "adapters \<Rightarrow> string \<Rightarrow> Retry \<Rightarrow> adapters" where
  "mount ads prefix adapter =
     (let stored = (if prefix \<in> set (map fst ads)
                    then map (\<lambda>(k, a). if k = prefix then (k, adapter) else (k, a)) ads
                    else ads @ [(prefix, adapter)])
      in filter (\<lambda>(k, a). \<not> length k < length prefix) stored
         @ filter (\<lambda>(k, a). length k < length prefix) stored)"

definition get_adapter :: "adapters \<Rightarrow> string \<Rightarrow> Retry option" where
  "get_adapter ads url =
     map_option snd (find (\<lambda>(prefix, a). startswith (lower url) (lower prefix)) ads)"

text \<open>\<open>requests.Session()\<close>: the two default adapters.\<close>

definition Session_adapters :: adapters where
  "Session_adapters = mount (mount [] ''https://'' default_max_retries) ''http://'' default_max_retries"

text \<open>\<open>RelayerService.__init__\<close> (lines 148-161).\<close>

record RelayerService =
  rs_api_url :: string
  rs_adapters :: adapters

definition RelayerService_init :: "string option \<Rightarrow> py_exception + RelayerService" where
  "RelayerService_init api_url =
     (case api_url of
        None \<Rightarrow> Inl ValueError
      | Some u \<Rightarrow>
          if u = [] then Inl ValueError
          else Inr \<lparr> rs_api_url = u,
                     rs_adapters = mount Session_adapters ''https://'' retries \<rparr>)"

text \<open>
  \<open>relay_transaction_data\<close> (lines 163-182). Every exception that \<open>session.post\<close>,
  \<open>raise_for_status\<close> and \<open>response.json()\<close> raise is a
  \<open>requests.exceptions.RequestException\<close>, which the \<open>except\<close> clause turns into
  the error line and the result \<open>False\<close>. \<open>raise_for_status\<close> raises for a status
  from 400 to 599. The result is the returned boolean, the events and the number of the
  next request.
\<close>

definition raise_for_status :: "response \<Rightarrow> bool" where
  "raise_for_status resp = (400 \<le> status_code resp \<and> status_code resp < 600)"

definition relay_failed :: "event list \<Rightarrow> nat \<Rightarrow> bool \<times> event list \<times> nat" where
  "relay_failed evs n = (False, evs @ [EvLog ERROR ''Failed to relay transaction data''], n)"

definition relay_transaction_data ::
    "RelayerService \<Rightarrow> (nat \<Rightarrow> attempt) \<Rightarrow> ParsedEvent \<Rightarrow> nat \<Rightarrow> bool \<times> event list \<times> nat" where
  "relay_transaction_data svc http event_data n =
     (let started = [EvLog INFO ''Relaying event data'']
      in case get_adapter (rs_adapters svc) (rs_api_url svc) of
           None \<Rightarrow> relay_failed started n
         | Some max_retries \<Rightarrow>
             (case urlopen http max_retries n of
                (Inl x, evs, n') \<Rightarrow> relay_failed (started @ evs) n'
              | (Inr resp, evs, n') \<Rightarrow>
                  if raise_for_status resp then relay_failed (started @ evs) n'
                  else if \<not> body_is_json resp then relay_failed (started @ evs) n'
                  else (True, started @ evs @ [EvLog INFO ''Successfully relayed transaction''], n')))"

text \<open>The number of requests a list of events puts on the wire, and its sleeps.\<close>

fun is_post :: "event \<Rightarrow> bool" where
  "is_post (EvPost n) = True"
| "is_post _ = False"

definition attempts :: "event list \<Rightarrow> nat" where
  "attempts evs = length (filter is_post evs)"

fun sleeps :: "event list \<Rightarrow> nat list" where
  "sleeps [] = []"
| "sleeps (EvSleep t # evs) = t # sleeps evs"
| "sleeps (_ # evs) = sleeps evs"

section \<open>Chain connector (script.py, class BlockchainConnector)\<close>

text \<open>
  The node and the web3 library are the program's environment. Its answers are given
  by outer iteration \<open>k\<close> of \<open>start_listening\<close> and, inside the poll loop, by poll
  \<open>j\<close> of that iteration:
  \<^item> \<open>w_connect k\<close>: what the \<open>k\<close>-th \<open>connect()\<close> meets: the provider is built and
    \<open>is_connected()\<close> holds, or \<open>is_connected()\<close> is false, or the library raises;
  \<^item> \<open>w_is_address\<close> and \<open>w_to_checksum_address\<close>: web3's address check and
    checksum conversion (\<open>None\<close>: it raises \<open>ValueError\<close>);
  \<^item> \<open>w_contract_live k\<close>: the answer of \<open>is_connected()\<close> inside \<open>get_contract\<close>;
  \<^item> \<open>w_filter_ok k\<close>: whether \<open>create_filter\<close> returns;
  \<^item> \<open>w_live k j\<close>: the answer of \<open>is_connected()\<close> at the head of the poll loop;
  \<^item> \<open>w_entries k j\<close>: the batch that \<open>get_new_entries()\<close> hands to the \<open>for\<close>
    loop of line 225 (\<open>None\<close>: it raises, see \<open>get_new_entries\<close> below);
  \<^item> \<open>w_process_log\<close>: web3's decoder; \<open>w_http n\<close>: the outcome of the \<open>n\<close>-th HTTP
    request.
\<close>

datatype connect_outcome = ConnOk | ConnNotLive | ConnRaises

record world =
  w_connect :: "nat \<Rightarrow> connect_outcome"
  w_is_address :: "string \<Rightarrow> bool"
  w_to_checksum_address :: "string \<Rightarrow> string option"
  w_contract_live :: "nat \<Rightarrow> bool"
  w_filter_ok :: "nat \<Rightarrow> bool"
  w_live :: "nat \<Rightarrow> nat \<Rightarrow> bool"
  w_entries :: "nat \<Rightarrow> nat \<Rightarrow> LogReceipt list option"
  w_process_log :: process_log_fn
  w_http :: "nat \<Rightarrow> attempt"

text \<open>
  The filter of line 221 comes from \<open>contract.events.TokensLocked.create_filter\<close>, so
  web3 gives it the event's decoder as \<open>log_entry_formatter\<close>, and
  \<open>get_new_entries()\<close> formats every log the node reports before it returns
  (\<open>_format_log_entries\<close>: a list comprehension over the logs). A log that the decoder
  rejects therefore raises inside \<open>get_new_entries()\<close>, at line 225, which is outside
  the \<open>try\<close> of \<open>parse_tokens_locked_event\<close>. \<open>changes\<close> is what the node answers
  (\<open>None\<close>: the request raises). For a batch that formats, the handler of this model
  is given the receipts, as the annotations of \<open>_event_handler\<close> and
  \<open>parse_tokens_locked_event\<close> have it; web3 hands over the formatted events.
\<close>

fun format_log_entries :: "process_log_fn \<Rightarrow> LogReceipt list \<Rightarrow> string + EventData list" where
  "format_log_entries log_entry_formatter [] = Inr []"
| "format_log_entries log_entry_formatter (log_entry # log_entries) =
     (case log_entry_formatter log_entry of
        Inl e \<Rightarrow> Inl e
      | Inr formatted \<Rightarrow>
          (case format_log_entries log_entry_formatter log_entries of
             Inl e \<Rightarrow> Inl e
           | Inr formatted_log_entries \<Rightarrow> Inr (formatted # formatted_log_entries)))"

definition get_new_entries :: "process_log_fn \<Rightarrow> LogReceipt list option \<Rightarrow> LogReceipt list option" where
  "get_new_entries log_entry_formatter changes =
     (case changes of
        None \<Rightarrow> None
      | Some log_entries \<Rightarrow>
          (case format_log_entries log_entry_formatter log_entries of
             Inl e \<Rightarrow> None
           | Inr formatted_log_entries \<Rightarrow> Some log_entries))"

text \<open>\<open>BlockchainConnector.__init__\<close> (lines 52-62).\<close>

definition BlockchainConnector_init :: "string option \<Rightarrow> py_exception + string" where
  "BlockchainConnector_init wss_url =
     (case wss_url of
        None \<Rightarrow> Inl ValueError
      | Some u \<Rightarrow> if u = [] then Inl ValueError else Inr u)"

text \<open>
  \<open>connect\<close> (lines 64-78): the events and the exception that leaves it, if any. A
  node that is not live raises \<open>ConnectionError\<close> inside the \<open>try\<close>; the handler logs
  and raises it again.
\<close>

definition connect :: "world \<Rightarrow> nat \<Rightarrow> event list \<times> py_exception option" where
  "connect w k =
     (let started = [EvLog INFO ''Attempting to connect to blockchain node'', EvConnect k];
          failed = [EvLog ERROR ''An error occurred while connecting to the node'']
      in case w_connect w k of
           ConnOk \<Rightarrow> (started @ [EvLog INFO ''Successfully connected to chain''], None)
         | ConnNotLive \<Rightarrow> (started @ failed, Some ConnectionError)
         | ConnRaises \<Rightarrow> (started @ failed, Some LibraryError))"

text \<open>
  \<open>get_contract\<close> (lines 84-99). The connection is checked first; only a connected
  handle reaches \<open>to_checksum_address\<close>, which raises \<open>ValueError\<close> for a string that
  is not an address.
\<close>

record abi_input =
  ai_indexed :: bool
  ai_name :: string
  ai_type :: string

record abi_event =
  ae_anonymous :: bool
  ae_inputs :: "abi_input list"
  ae_name :: string

type_synonym abi = "abi_event list"

text \<open>\<open>BRIDGE_CONTRACT_ABI\<close> (lines 33-46), before \<open>json.dumps\<close>.\<close>

definition BRIDGE_CONTRACT_ABI :: abi where
  "BRIDGE_CONTRACT_ABI =
     [\<lparr> ae_anonymous = False,
         ae_inputs = [\<lparr> ai_indexed = True, ai_name = ''token'', ai_type = ''address'' \<rparr>,
                      \<lparr> ai_indexed = True, ai_name = ''sender'', ai_type = ''address'' \<rparr>,
                      \<lparr> ai_indexed = False, ai_name = ''recipient'', ai_type = ''address'' \<rparr>,
                      \<lparr> ai_indexed = False, ai_name = ''amount'', ai_type = ''uint256'' \<rparr>,
                      \<lparr> ai_indexed = False, ai_name = ''destinationChainId'', ai_type = ''uint256'' \<rparr>],
         ae_name = ''TokensLocked'' \<rparr>]"

record Contract =
  ct_address :: string
  ct_abi :: abi

definition get_contract ::
    "(string \<Rightarrow> string option) \<Rightarrow> bool \<Rightarrow> string \<Rightarrow> abi \<Rightarrow> event list \<times> (py_exception + Contract)" where
  "get_contract to_checksum_address is_connected address abi =
     (if \<not> is_connected
      then ([EvLog ERROR ''Cannot get contract, not connected to the blockchain.''], Inl ConnectionError)
      else case to_checksum_address address of
             None \<Rightarrow> ([], Inl ValueError)
           | Some checksum_address \<Rightarrow> ([], Inr \<lparr> ct_address = checksum_address, ct_abi = abi \<rparr>))"

section \<open>Relay orchestrator (script.py, class BridgeEventListener)\<close>

record config =
  cfg_wss_url :: "string option"
  cfg_contract_address :: "string option"
  cfg_relayer_url :: "string option"
  cfg_abi :: abi

text \<open>
  \<open>_event_handler\<close> (lines 201-206) for one log entry: the events and the number of the
  next HTTP request. The handler ignores what \<open>relay_transaction_data\<close> returns.
\<close>

definition event_handler ::
    "world \<Rightarrow> RelayerService \<Rightarrow> LogReceipt \<Rightarrow> nat \<Rightarrow> event list \<times> nat" where
  "event_handler w relayer event_log n =
     (let received = [EvLog INFO ''Received new event log for transaction'']
      in case parse_tokens_locked_event (w_process_log w) event_log of
           None \<Rightarrow> (received @ [EvLog ERROR ''Failed to parse event log''], n)
         | Some parsed_data \<Rightarrow>
             (case relay_transaction_data relayer (w_http w) parsed_data n of
                (ok, evs, n') \<Rightarrow> (received @ evs, n')))"

text \<open>The \<open>for\<close> loop over one batch (lines 225-226).\<close>

fun handle_entries ::
    "world \<Rightarrow> RelayerService \<Rightarrow> LogReceipt list \<Rightarrow> nat \<Rightarrow> event list \<times> nat" where
  "handle_entries w relayer [] n = ([], n)"
| "handle_entries w relayer (e # es) n =
     (case event_handler w relayer e n of
        (evs, n') \<Rightarrow>
          (case handle_entries w relayer es n' of
             (evs', n'') \<Rightarrow> (evs @ evs', n'')))"

text \<open>
  \<open>start_listening\<close> (lines 208-233) runs for ever, so it is a machine that is stepped.
  The phases are the places of the loop body:
  \<^item> \<open>Connecting\<close>: line 215, \<open>self.connector.connect()\<close>;
  \<^item> \<open>Subscribing\<close>: lines 216-223, the address check, \<open>get_contract\<close> and
    \<open>create_filter\<close>;
  \<^item> \<open>Polling\<close>: one turn of the inner \<open>while\<close> (lines 224-227);
  \<^item> \<open>Reconnecting\<close>: the \<open>except\<close> clause (lines 229-231), followed by \<open>finally\<close>.
  When the head of the inner \<open>while\<close> finds the connection gone, the \<open>try\<close> ends
  without an exception: \<open>finally\<close> runs and the outer loop starts over.
\<close>

datatype phase = Connecting | Subscribing | Polling | Reconnecting

record listener =
  ls_phase :: phase
  ls_iter :: nat
  ls_poll :: nat
  ls_sent :: nat
  ls_trace :: "event list"

definition emit :: "event list \<Rightarrow> listener \<Rightarrow> listener" where
  "emit evs s = s \<lparr> ls_trace := ls_trace s @ evs \<rparr>"

definition lost :: event where
  "lost = EvLog WARNING ''Connection lost or loop interrupted.''"

definition subscribe :: "world \<Rightarrow> config \<Rightarrow> nat \<Rightarrow> event list \<times> py_exception option" where
  "subscribe w cfg k =
     (let contract_address = (case cfg_contract_address cfg of None \<Rightarrow> [] | Some a \<Rightarrow> a)
      in if \<not> w_is_address w contract_address then ([], Some ValueError)
         else case get_contract (w_to_checksum_address w) (w_contract_live w k)
                     contract_address (cfg_abi cfg) of
                (evs, Inl e) \<Rightarrow> (evs, Some e)
              | (evs, Inr contract) \<Rightarrow>
                  if \<not> w_filter_ok w k then (evs, Some LibraryError)
                  else (evs @ [EvLog INFO ''Starting to listen for TokensLocked events''], None))"

definition step :: "world \<Rightarrow> config \<Rightarrow> RelayerService \<Rightarrow> listener \<Rightarrow> listener" where
  "step w cfg relayer s =
     (case ls_phase s of
        Connecting \<Rightarrow>
          (case connect w (ls_iter s) of
             (evs, None) \<Rightarrow> emit evs (s \<lparr> ls_phase := Subscribing \<rparr>)
           | (evs, Some e) \<Rightarrow> emit evs (s \<lparr> ls_phase := Reconnecting \<rparr>))
      | Subscribing \<Rightarrow>
          (case subscribe w cfg (ls_iter s) of
             (evs, None) \<Rightarrow> emit evs (s \<lparr> ls_phase := Polling, ls_poll := 0 \<rparr>)
           | (evs, Some e) \<Rightarrow> emit evs (s \<lparr> ls_phase := Reconnecting \<rparr>))
      | Polling \<Rightarrow>
          if \<not> w_live w (ls_iter s) (ls_poll s)
          then emit [lost] (s \<lparr> ls_phase := Connecting, ls_iter := Suc (ls_iter s) \<rparr>)
          else (case w_entries w (ls_iter s) (ls_poll s) of
                  None \<Rightarrow> s \<lparr> ls_phase := Reconnecting \<rparr>
                | Some entries \<Rightarrow>
                    (case handle_entries w relayer entries (ls_sent s) of
                       (evs, n') \<Rightarrow>
                         emit (evs @ [EvSleep 5])
                           (s \<lparr> ls_poll := Suc (ls_poll s), ls_sent := n' \<rparr>)))
      | Reconnecting \<Rightarrow>
          emit [EvLog ERROR ''An error occurred in the listening loop. Attempting to reconnect in 30 seconds'',
                EvSleep 30, lost]
            (s \<lparr> ls_phase := Connecting, ls_iter := Suc (ls_iter s) \<rparr>))"

definition initial :: listener where
  "initial = \<lparr> ls_phase = Connecting, ls_iter = 0, ls_poll = 0, ls_sent = 0, ls_trace = [] \<rparr>"

text \<open>The listener after \<open>n\<close> steps, and the phases it went through, the first included.\<close>

fun run :: "world \<Rightarrow> config \<Rightarrow> RelayerService \<Rightarrow> nat \<Rightarrow> listener \<Rightarrow> listener" where
  "run w cfg relayer 0 s = s"
| "run w cfg relayer (Suc n) s = run w cfg relayer n (step w cfg relayer s)"

fun phases :: "world \<Rightarrow> config \<Rightarrow> RelayerService \<Rightarrow> nat \<Rightarrow> listener \<Rightarrow> phase list" where
  "phases w cfg relayer 0 s = [ls_phase s]"
| "phases w cfg relayer (Suc n) s = ls_phase s # phases w cfg relayer n (step w cfg relayer s)"

text \<open>How often a list of phases goes from \<open>a\<close> straight to \<open>b\<close>.\<close>

fun transitions :: "phase \<Rightarrow> phase \<Rightarrow> phase list \<Rightarrow> nat" where
  "transitions a b (x # y # ps) = (if x = a \<and> y = b then 1 else 0) + transitions a b (y # ps)"
| "transitions a b _ = 0"

section \<open>Startup (script.py, main)\<close>

text \<open>
  \<open>main\<close> (lines 236-258) on an environment \<open>getenv\<close>. \<open>not os.getenv(var)\<close> holds for
  a variable that is unset or empty. The module constants of lines 27-29 read the same
  environment. \<open>BridgeEventListener.__init__\<close> is called outside the \<open>try\<close>: an
  exception of a constructor leaves \<open>main\<close>. The listener is observed after \<open>n\<close> steps
  of \<open>start_listening\<close>.
\<close>

definition required_vars :: "string list" where
  "required_vars = [''SOURCE_CHAIN_WSS_URL'', ''BRIDGE_CONTRACT_ADDRESS'', ''DESTINATION_RELAYER_API_URL'']"

definition falsy :: "string option \<Rightarrow> bool" where
  "falsy v = (case v of None \<Rightarrow> True | Some x \<Rightarrow> x = [])"

datatype main_outcome = Returned | Raised py_exception | Listening listener

definition BridgeEventListener_init :: "config \<Rightarrow> py_exception + RelayerService" where
  "BridgeEventListener_init cfg =
     (case BlockchainConnector_init (cfg_wss_url cfg) of
        Inl e \<Rightarrow> Inl e
      | Inr connector \<Rightarrow> RelayerService_init (cfg_relayer_url cfg))"

definition main :: "(string \<Rightarrow> string option) \<Rightarrow> world \<Rightarrow> nat \<Rightarrow> event list \<times> main_outcome" where
  "main getenv w n =
     (if list_ex (\<lambda>var. falsy (getenv var)) required_vars
      then ([EvLog ERROR ''One or more required environment variables are missing. Please check your .env file.'',
             EvLog ERROR ''Required: SOURCE_CHAIN_WSS_URL, BRIDGE_CONTRACT_ADDRESS, DESTINATION_RELAYER_API_URL''],
            Returned)
      else let cfg = \<lparr> cfg_wss_url = getenv ''SOURCE_CHAIN_WSS_URL'',
                        cfg_contract_address = getenv ''BRIDGE_CONTRACT_ADDRESS'',
                        cfg_relayer_url = getenv ''DESTINATION_RELAYER_API_URL'',
                        cfg_abi = BRIDGE_CONTRACT_ABI \<rparr>
           in case BridgeEventListener_init cfg of
                Inl e \<Rightarrow> ([], Raised e)
              | Inr relayer \<Rightarrow>
                  (let s = run w cfg relayer n initial in (ls_trace s, Listening s)))"

fun is_connect :: "event \<Rightarrow> bool" where
  "is_connect (EvConnect k) = True"
| "is_connect _ = False"

section \<open>Unit converter (unit_converter.py)\<close>

text \<open>
  Python's \<open>decimal.Decimal\<close>, finite values: a sign, a coefficient and an exponent;
  the value is \<open>(-1)^sign * coefficient * 10^exponent\<close>. The arithmetic is that of the
  default context: precision 28, rounding half to even, exponents from -999999 to
  999999, with a trap on overflow, division by zero and invalid operations. The
  definitions follow \<open>Decimal._fix\<close>, \<open>Decimal.__mul__\<close> and \<open>Decimal.__truediv__\<close>;
  where Python works on the digit string of the coefficient, the model works on the
  number.
\<close>

record decimal =
  d_sign :: bool
  d_int :: nat
  d_exp :: int

datatype signal = Overflow | DivisionByZero | InvalidOperation

definition ctx_prec :: nat where "ctx_prec = 28"
definition Emax :: int where "Emax = 999999"
definition Emin :: int where "Emin = - 999999"
definition Etiny :: int where "Etiny = Emin - int ctx_prec + 1"
definition Etop :: int where "Etop = Emax - int ctx_prec + 1"

text \<open>\<open>len(self._int)\<close>: the number of digits of the coefficient; zero has one digit.\<close>

definition len_int :: "nat \<Rightarrow> nat" where
  "len_int c = length (str_nat c)"

text \<open>
  \<open>_round_half_even\<close> when the last \<open>k\<close> digits of the coefficient \<open>c\<close> are dropped:
  1 when the kept digits are to be incremented, 0 when the dropped digits are all zero,
  -1 otherwise. \<open>no_digits\<close> says that no digit is kept.
\<close>

definition round_half_even :: "nat \<Rightarrow> nat \<Rightarrow> bool \<Rightarrow> int" where
  "round_half_even c k no_digits =
     (let dropped = c mod 10 ^ k; half = 5 * 10 ^ (k - 1)
      in if dropped = half \<and> (no_digits \<or> even (c div 10 ^ k)) then - 1
         else if half \<le> dropped then 1
         else if dropped = 0 then 0
         else - 1)"

definition dec_fix :: "decimal \<Rightarrow> signal + decimal" where
  "dec_fix d =
     (if d_int d = 0
      then Inr (d \<lparr> d_exp := min (max (d_exp d) Etiny) Emax \<rparr>)
      else
        let exp_min0 = int (len_int (d_int d)) + d_exp d - int ctx_prec
        in if Etop < exp_min0 then Inl Overflow
           else
             let exp_min = (if exp_min0 < Etiny then Etiny else exp_min0)
             in if d_exp d < exp_min
                then
                  let digits0 = int (len_int (d_int d)) + d_exp d - exp_min;
                      self_int = (if digits0 < 0 then 1 else d_int d);
                      digits = (if digits0 < 0 then 0 else nat digits0);
                      k = len_int self_int - digits;
                      changed = round_half_even self_int k (digits = 0);
                      coeff = self_int div 10 ^ k;
                      carried = (0 < changed \<and> ctx_prec < len_int (coeff + 1));
                      coeff' = (if 0 < changed
                                then (if carried then (coeff + 1) div 10 else coeff + 1)
                                else coeff);
                      exp_min' = (if carried then exp_min + 1 else exp_min)
                  in if Etop < exp_min' then Inl Overflow
                     else Inr \<lparr> d_sign = d_sign d, d_int = coeff', d_exp = exp_min' \<rparr>
                else Inr d)"

text \<open>
  \<open>__mul__\<close>: the special cases for a zero and for a coefficient 1 build the same
  triple as the general case.
\<close>

definition dec_mul :: "decimal \<Rightarrow> decimal \<Rightarrow> signal + decimal" where
  "dec_mul a b =
     dec_fix \<lparr> d_sign = (d_sign a \<noteq> d_sign b), d_int = d_int a * d_int b,
               d_exp = d_exp a + d_exp b \<rparr>"

text \<open>The loop of \<open>__truediv__\<close> that brings an exact quotient to its ideal exponent.\<close>

function strip_zeros :: "nat \<Rightarrow> int \<Rightarrow> int \<Rightarrow> nat \<times> int" where
  "strip_zeros coeff e ideal_exp =
     (if e < ideal_exp \<and> coeff mod 10 = 0 then strip_zeros (coeff div 10) (e + 1) ideal_exp
      else (coeff, e))"
  by pat_completeness auto
termination
  by (relation "measure (\<lambda>(coeff, e, ideal_exp). nat (ideal_exp - e))") auto

declare strip_zeros.simps [simp del]

definition dec_div :: "decimal \<Rightarrow> decimal \<Rightarrow> signal + decimal" where
  "dec_div a b =
     (let sign = (d_sign a \<noteq> d_sign b)
      in if d_int b = 0 then (if d_int a = 0 then Inl InvalidOperation else Inl DivisionByZero)
         else if d_int a = 0
         then dec_fix \<lparr> d_sign = sign, d_int = 0, d_exp = d_exp a - d_exp b \<rparr>
         else
           let shift = int (len_int (d_int b)) - int (len_int (d_int a)) + int ctx_prec + 1;
               e = d_exp a - d_exp b - shift;
               num = (if 0 \<le> shift then d_int a * 10 ^ nat shift else d_int a);
               den = (if 0 \<le> shift then d_int b else d_int b * 10 ^ nat (- shift));
               coeff = num div den;
               remainder = num mod den
           in if remainder \<noteq> 0
              then dec_fix \<lparr> d_sign = sign,
                             d_int = (if coeff mod 5 = 0 then coeff + 1 else coeff),
                             d_exp = e \<rparr>
              else (case strip_zeros coeff e (d_exp a - d_exp b) of
                      (coeff', e') \<Rightarrow> dec_fix \<lparr> d_sign = sign, d_int = coeff', d_exp = e' \<rparr>))"

text \<open>
  The values \<open>convert_eth_unit\<close> is given: an \<open>int\<close> or a finite \<open>Decimal\<close> (a
  string that denotes a number behaves as that \<open>Decimal\<close>; floats, \<open>NaN\<close> and the
  infinities are outside the model). \<open>Decimal(str(value))\<close> is exact for both.
\<close>

datatype py_value = PyInt int | PyDecimal decimal

fun to_decimal :: "py_value \<Rightarrow> decimal" where
  "to_decimal (PyInt i) = \<lparr> d_sign = (i < 0), d_int = nat \<bar>i\<bar>, d_exp = 0 \<rparr>"
| "to_decimal (PyDecimal d) = d"

definition power_of_ten :: "int \<Rightarrow> decimal" where
  "power_of_ten e = \<lparr> d_sign = False, d_int = 1, d_exp = e \<rparr>"

text \<open>\<open>ETH_UNITS\<close> (lines 5-13): \<open>Decimal('1e3')\<close> has coefficient 1 and exponent 3.\<close>

definition ETH_UNITS :: "(string \<times> decimal) list" where
  "ETH_UNITS =
     [(''wei'', power_of_ten 0), (''kwei'', power_of_ten 3), (''mwei'', power_of_ten 6),
      (''gwei'', power_of_ten 9), (''szabo'', power_of_ten 12), (''finney'', power_of_ten 15),
      (''ether'', power_of_ten 18)]"

datatype convert_error = InvalidFromUnit | InvalidToUnit | Signalled signal

text \<open>\<open>convert_eth_unit\<close> (lines 15-51).\<close>

definition convert_eth_unit :: "py_value \<Rightarrow> string \<Rightarrow> string \<Rightarrow> convert_error + decimal" where
  "convert_eth_unit v from_unit to_unit =
     (let from_unit_lower = lower from_unit; to_unit_lower = lower to_unit
      in case map_of ETH_UNITS from_unit_lower of
           None \<Rightarrow> Inl InvalidFromUnit
         | Some from_factor \<Rightarrow>
             (case map_of ETH_UNITS to_unit_lower of
                None \<Rightarrow> Inl InvalidToUnit
              | Some to_factor \<Rightarrow>
                  (case dec_mul (to_decimal v) from_factor of
                     Inl s \<Rightarrow> Inl (Signalled s)
                   | Inr value_in_wei \<Rightarrow>
                       (case dec_div value_in_wei to_factor of
                          Inl s \<Rightarrow> Inl (Signalled s)
                        | Inr converted_value \<Rightarrow> Inr converted_value))))"

text \<open>Python's \<open>==\<close> between a \<open>Decimal\<close> and an \<open>int\<close>: equality of the values.\<close>

definition signed_int :: "decimal \<Rightarrow> int" where
  "signed_int d = (if d_sign d then - int (d_int d) else int (d_int d))"

definition dec_eq_int :: "decimal \<Rightarrow> int \<Rightarrow> bool" where
  "dec_eq_int d i =
     (if 0 \<le> d_exp d then signed_int d * 10 ^ nat (d_exp d) = i
      else signed_int d = i * 10 ^ nat (- d_exp d))"

section \<open>Concrete environments\<close>

text \<open>
  Stand-ins for the library and the node, used for concrete runs only. The address check
  accepts \<open>0x\<close> followed by 40 hexadecimal digits and the checksum conversion returns
  an accepted address as it is. That is web3's answer for an address without letters, as
  the one used below; web3 also sets the case of the letters of an address and accepts
  one without the prefix.
\<close>

definition sample_is_address :: "string \<Rightarrow> bool" where
  "sample_is_address a =
     (length a = 42 \<and> take 2 a = ''0x''
      \<and> list_all (\<lambda>c. c \<in> set ''0123456789abcdefABCDEF'') (drop 2 a))"

definition sample_to_checksum_address :: "string \<Rightarrow> string option" where
  "sample_to_checksum_address a = (if sample_is_address a then Some a else None)"

definition sample_world ::
    "(nat \<Rightarrow> connect_outcome) \<Rightarrow> (nat \<Rightarrow> nat \<Rightarrow> LogReceipt list option) \<Rightarrow> (nat \<Rightarrow> attempt) \<Rightarrow> world" where
  "sample_world conn entries http =
     \<lparr> w_connect = conn,
       w_is_address = sample_is_address,
       w_to_checksum_address = sample_to_checksum_address,
       w_contract_live = (\<lambda>k. True),
       w_filter_ok = (\<lambda>k. True),
       w_live = (\<lambda>k j. True),
       w_entries = entries,
       w_process_log = sample_process_log,
       w_http = http \<rparr>"

definition sample_config :: config where
  "sample_config =
     \<lparr> cfg_wss_url = Some ''wss://node.example/ws'',
       cfg_contract_address = Some ''0x0000000000000000000000000000000000000123'',
       cfg_relayer_url = Some ''https://relayer.example/relay'',
       cfg_abi = BRIDGE_CONTRACT_ABI \<rparr>"

definition sample_relayer :: "string \<Rightarrow> RelayerService" where
  "sample_relayer url = \<lparr> rs_api_url = url, rs_adapters = mount Session_adapters ''https://'' retries \<rparr>"

definition status_response :: "int \<Rightarrow> response" where
  "status_response code = \<lparr> status_code = code, retry_after = None, body_is_json = False \<rparr>"

definition ok_response :: response where
  "ok_response = \<lparr> status_code = 200, retry_after = None, body_is_json = True \<rparr>"

text \<open>
  A log entry with the signature topic and one indexed topic only: one fewer than the
  event has.
\<close>

definition short_log :: LogReceipt where
  "short_log = (sample_log amount_word_2_200) \<lparr> lr_topics := take 2 (lr_topics (sample_log amount_word_2_200)) \<rparr>"

section \<open>Auxiliary notions for the properties\<close>

text \<open>The \<open>Retry\<close> object of line 160 after \<open>h\<close> increments.\<close>

definition retries_after :: "nat \<Rightarrow> Retry" where
  "retries_after h = retries \<lparr> rt_total := 5 - int h, rt_history := h \<rparr>"

text \<open>The schedule of sleeps that follows from \<open>get_backoff_time\<close>.\<close>

definition backoffs :: "nat \<Rightarrow> nat \<Rightarrow> nat list" where
  "backoffs h a = map (\<lambda>j. 2 ^ (j - 1)) (filter (\<lambda>j. 2 \<le> j) [Suc h..<h + a])"


text \<open>A decoded event for concrete calls of \<open>relay_transaction_data\<close>.\<close>

definition sample_event :: ParsedEvent where
  "sample_event =
     \<lparr> pe_transactionHash = ''0xabcdef01'', pe_blockNumber = 100, pe_event = ''TokensLocked'',
       pe_args = \<lparr> pa_token = ''0x1111111111111111111111111111111111111111'',
                   pa_sender = ''0x2222222222222222222222222222222222222222'',
                   pa_recipient = ''0x3333333333333333333333333333333333333333'',
                   pa_amount = ''1000000000000000000'',
                   pa_destinationChainId = 137 \<rparr> \<rparr>"

text \<open>
  A \<open>Decimal\<close> that \<open>_fix\<close> returns unchanged: at most 28 digits and an exponent in
  range.
\<close>

definition fixed :: "decimal \<Rightarrow> bool" where
  "fixed d =
     (if d_int d = 0 then Etiny \<le> d_exp d \<and> d_exp d \<le> Emax
      else len_int (d_int d) \<le> ctx_prec \<and> Etiny \<le> d_exp d
           \<and> int (len_int (d_int d)) + d_exp d - int ctx_prec \<le> Etop)"

text \<open>The smallest exponent \<open>_fix\<close> allows for a non-zero value (its \<open>exp_min\<close>).\<close>

definition exp_min_of :: "decimal \<Rightarrow> int" where
  "exp_min_of d =
     (if int (len_int (d_int d)) + d_exp d - int ctx_prec < Etiny then Etiny
      else int (len_int (d_int d)) + d_exp d - int ctx_prec)"

text \<open>The unit names \<open>convert_eth_unit\<close> accepts: the keys of \<open>ETH_UNITS\<close>, in any case.\<close>

definition is_unit :: "string \<Rightarrow> bool" where
  "is_unit u = (lower u \<in> set (map fst ETH_UNITS))"

section \<open>Decoder: the amount is kept exactly\<close>

lemma value_digits_append:
  "value_digits acc (xs @ [c]) = 10 * value_digits acc xs + digit_val c"
  by (induction xs arbitrary: acc) simp_all

lemma digit_char_props:
  assumes "d < 10"
  shows "is_digit (digit_char d)" and "digit_val (digit_char d) = d"
proof -
  from assms have "d \<in> {0, 1, 2, 3, 4, 5, 6, 7, 8, 9}" by auto
  then show "is_digit (digit_char d)" and "digit_val (digit_char d) = d"
    by (auto simp: is_digit_def digit_val_def digit_char_def)
qed

lemma str_nat_small: "n < 10 \<Longrightarrow> str_nat n = [digit_char n]"
  by (simp add: str_nat.simps [of n])

lemma str_nat_step: "10 \<le> n \<Longrightarrow> str_nat n = str_nat (n div 10) @ [digit_char (n mod 10)]"
  by (simp add: str_nat.simps [of n])

lemma str_nat_digits: "str_nat n \<noteq> [] \<and> list_all is_digit (str_nat n)"
proof (induction n rule: str_nat.induct)
  case (1 n)
  show ?case
  proof (cases "n < 10")
    case True
    then show ?thesis by (simp add: str_nat.simps [of n] digit_char_props)
  next
    case False
    with 1 show ?thesis by (simp add: str_nat.simps [of n] digit_char_props)
  qed
qed

lemma str_nat_value: "value_digits 0 (str_nat n) = n"
proof (induction n rule: str_nat.induct)
  case (1 n)
  show ?case
  proof (cases "n < 10")
    case True
    then show ?thesis by (simp add: str_nat.simps [of n] digit_char_props)
  next
    case False
    with 1 show ?thesis
      by (simp add: str_nat.simps [of n] value_digits_append digit_char_props)
  qed
qed

lemma decimal_nat_str_nat: "decimal_nat (str_nat n) = Some n"
  by (simp add: decimal_nat_def str_nat_digits str_nat_value)

lemma str_nat_hd_not_minus: "\<exists>c cs. str_nat n = c # cs \<and> c \<noteq> CHR ''-''"
proof -
  obtain c cs where eq: "str_nat n = c # cs"
    using str_nat_digits [of n] by (cases "str_nat n") auto
  have "is_digit c" using str_nat_digits [of n] eq by simp
  then have "c \<noteq> CHR ''-''" by (auto simp: is_digit_def)
  with eq show ?thesis by blast
qed

lemma digit_val_simps [simp]:
  "digit_val CHR ''0'' = 0" "digit_val CHR ''1'' = 1" "digit_val CHR ''2'' = 2"
  "digit_val CHR ''3'' = 3" "digit_val CHR ''4'' = 4" "digit_val CHR ''5'' = 5"
  "digit_val CHR ''6'' = 6" "digit_val CHR ''7'' = 7" "digit_val CHR ''8'' = 8"
  "digit_val CHR ''9'' = 9"
  by (simp_all add: digit_val_def)

lemma digit_char_digit_val: "is_digit c \<Longrightarrow> digit_char (digit_val c) = c \<and> digit_val c < 10"
  by (auto simp: is_digit_def digit_val_def digit_char_def)

lemma value_digits_pos:
  "list_all is_digit s \<Longrightarrow> s \<noteq> [] \<Longrightarrow> hd s \<noteq> CHR ''0'' \<Longrightarrow> 0 < value_digits 0 s"
proof (induction s rule: rev_induct)
  case Nil
  then show ?case by simp
next
  case (snoc c xs)
  show ?case
  proof (cases "xs = []")
    case True
    with snoc.prems show ?thesis
      by (auto simp: is_digit_def digit_val_def)
  next
    case False
    with snoc have "0 < value_digits 0 xs" by simp
    then show ?thesis by (simp add: value_digits_append)
  qed
qed

lemma str_nat_value_digits:
  "list_all is_digit s \<Longrightarrow> s \<noteq> [] \<Longrightarrow> hd s \<noteq> CHR ''0'' \<Longrightarrow> str_nat (value_digits 0 s) = s"
proof (induction s rule: rev_induct)
  case Nil
  then show ?case by simp
next
  case (snoc c xs)
  from snoc.prems have c: "is_digit c" by simp
  show ?case
  proof (cases "xs = []")
    case True
    with c show ?thesis
      by (simp add: str_nat_small digit_char_digit_val)
  next
    case False
    with snoc have ih: "str_nat (value_digits 0 xs) = xs" by simp
    have "0 < value_digits 0 xs"
      using value_digits_pos [of xs] snoc.prems False by simp
    then have "10 \<le> 10 * value_digits 0 xs + digit_val c" by simp
    then show ?thesis
      using ih c by (simp add: value_digits_append str_nat_step digit_char_digit_val)
  qed
qed

lemma decimal_int_str_int: "decimal_int (str_int i) = Some i"
proof (cases "i < 0")
  case True
  then show ?thesis by (simp add: decimal_int_def str_int_def decimal_nat_str_nat)
next
  case False
  obtain c cs where eq: "str_nat (nat i) = c # cs" and c: "c \<noteq> CHR ''-''"
    using str_nat_hd_not_minus by blast
  have "decimal_nat (c # cs) = Some (nat i)"
    using decimal_nat_str_nat [of "nat i"] eq by simp
  with False eq c show ?thesis by (simp add: decimal_int_def str_int_def)
qed

text \<open>
  Claim C1. For every raw log entry that the decoder accepts, the record that
  \<open>parse_tokens_locked_event\<close> produces carries the amount as the decimal string of the
  decoded integer: reading the string back gives the integer again, whatever its size,
  and the serialized body holds that same string as a JSON string, not a number.
\<close>

theorem decode_amount_exact:
  assumes "process_log l = Inr p"
  shows "\<exists>r. parse_tokens_locked_event process_log l = Some r
           \<and> pa_amount (pe_args r) = str_int (ea_amount (ed_args p))
           \<and> decimal_int (pa_amount (pe_args r)) = Some (ea_amount (ed_args p))
           \<and> json_amount (event_json r) = Some (JString (str_int (ea_amount (ed_args p))))"
  using assms
  by (simp add: parse_tokens_locked_event_def decimal_int_str_int json_amount_def event_json_def)

lemma str_int_2_200:
  "str_int (2 ^ 200) = ''1606938044258990275541962092341162602522202993782792835301376''"
proof -
  have "str_nat (value_digits 0 ''1606938044258990275541962092341162602522202993782792835301376'')
        = ''1606938044258990275541962092341162602522202993782792835301376''"
    by (rule str_nat_value_digits) (simp_all add: is_digit_def)
  then show ?thesis by (simp add: str_int_def)
qed

lemma sample_log_2_200:
  "\<exists>p. sample_process_log (sample_log amount_word_2_200) = Inr p \<and> ea_amount (ed_args p) = 2 ^ 200"
  by (simp add: sample_process_log_def sample_log_def amount_word_2_200_def)

theorem decode_amount_exact_witness:
  "\<exists>r. parse_tokens_locked_event sample_process_log (sample_log amount_word_2_200) = Some r
       \<and> pa_amount (pe_args r) = ''1606938044258990275541962092341162602522202993782792835301376''
       \<and> decimal_int (pa_amount (pe_args r)) = Some (2 ^ 200)
       \<and> json_amount (event_json r)
           = Some (JString ''1606938044258990275541962092341162602522202993782792835301376'')"
proof -
  obtain p where p: "sample_process_log (sample_log amount_word_2_200) = Inr p"
    and a: "ea_amount (ed_args p) = 2 ^ 200"
    using sample_log_2_200 by blast
  show ?thesis
    using decode_amount_exact [of sample_process_log "sample_log amount_word_2_200" p, OF p]
    unfolding a str_int_2_200 .
qed

section \<open>Orchestrator: a log entry that does not decode\<close>

lemma mounted_adapters:
  "mount Session_adapters ''https://'' retries = [(''https://'', retries), (''http://'', default_max_retries)]"
  by (simp add: mount_def Session_adapters_def)


lemma handler_undecodable:
  "w_process_log w l = Inl e \<Longrightarrow>
   event_handler w relayer l n =
     ([EvLog INFO ''Received new event log for transaction'', EvLog ERROR ''Failed to parse event log''], n)"
  by (simp add: event_handler_def parse_tokens_locked_event_def)

lemma is_retry_POST:
  "rt_allowed_methods r = DEFAULT_ALLOWED_METHODS \<Longrightarrow> is_retry r ''POST'' code b = False"
  by (simp add: is_retry_def is_method_retryable_def DEFAULT_ALLOWED_METHODS_def)

lemma urlopen_responded:
  "rt_allowed_methods r = DEFAULT_ALLOWED_METHODS \<Longrightarrow> http n = Responded resp \<Longrightarrow>
   urlopen http r n = (Inr resp, [EvPost n], Suc n)"
  by (simp add: urlopen.simps [of http r n] is_retry_POST)

lemma allowed_methods_simps [simp]:
  "rt_allowed_methods retries = DEFAULT_ALLOWED_METHODS"
  "rt_allowed_methods default_max_retries = DEFAULT_ALLOWED_METHODS"
  by (simp_all add: retries_def default_max_retries_def Retry_defaults_def)

lemma short_log_rejected: "sample_process_log short_log = Inl ''Expected 2 log topics. Got 1''"
  by (simp add: sample_process_log_def short_log_def sample_log_def str_nat_small digit_char_def)

text \<open>
  Claim C4 at a batch of two logs the node reports in one poll, the first with one
  indexed topic missing, the second well formed. \<open>get_new_entries()\<close> raises on the
  first log while it formats the batch, outside \<open>parse_tokens_locked_event\<close>: the
  listener leaves the poll loop for the \<open>except\<close> clause, sleeps 30 seconds and
  connects again; no request is sent and the second entry of the batch is never handled.
  The \<open>try\<close> of \<open>parse_tokens_locked_event\<close> and the test of its result in
  \<open>_event_handler\<close> (\<open>handler_undecodable\<close>) would skip such an entry, but it does
  not reach them.
\<close>

theorem undecodable_entry_aborts_poll:
  "format_log_entries sample_process_log [short_log, sample_log amount_word_2_200]
     = Inl ''Expected 2 log topics. Got 1''
   \<and> get_new_entries sample_process_log (Some [short_log, sample_log amount_word_2_200]) = None
   \<and> phases (sample_world (\<lambda>k. ConnOk)
                (\<lambda>k j. get_new_entries sample_process_log (Some [short_log, sample_log amount_word_2_200]))
                (\<lambda>n. Responded ok_response))
        sample_config (sample_relayer ''https://relayer.example/relay'') 2
        (initial \<lparr> ls_phase := Polling \<rparr>)
     = [Polling, Reconnecting, Connecting]
   \<and> ls_trace (run (sample_world (\<lambda>k. ConnOk)
                (\<lambda>k j. get_new_entries sample_process_log (Some [short_log, sample_log amount_word_2_200]))
                (\<lambda>n. Responded ok_response))
        sample_config (sample_relayer ''https://relayer.example/relay'') 2
        (initial \<lparr> ls_phase := Polling \<rparr>))
     = [EvLog ERROR ''An error occurred in the listening loop. Attempting to reconnect in 30 seconds'',
        EvSleep 30, EvLog WARNING ''Connection lost or loop interrupted.'']
   \<and> ls_sent (run (sample_world (\<lambda>k. ConnOk)
                (\<lambda>k j. get_new_entries sample_process_log (Some [short_log, sample_log amount_word_2_200]))
                (\<lambda>n. Responded ok_response))
        sample_config (sample_relayer ''https://relayer.example/relay'') 2
        (initial \<lparr> ls_phase := Polling \<rparr>)) = 0"
proof -
  let ?w = "sample_world (\<lambda>k. ConnOk)
                (\<lambda>k j. get_new_entries sample_process_log (Some [short_log, sample_log amount_word_2_200]))
                (\<lambda>n. Responded ok_response)"
  let ?r = "sample_relayer ''https://relayer.example/relay''"
  let ?s = "initial \<lparr> ls_phase := Polling \<rparr>"
  have f: "format_log_entries sample_process_log [short_log, sample_log amount_word_2_200]
     = Inl ''Expected 2 log topics. Got 1''"
    by (simp add: short_log_rejected)
  then have g: "get_new_entries sample_process_log (Some [short_log, sample_log amount_word_2_200]) = None"
    by (simp add: get_new_entries_def)
  have e: "w_entries ?w k j = None" "w_live ?w k j" for k j
    by (simp_all add: sample_world_def g)
  have s1: "step ?w sample_config ?r ?s = initial \<lparr> ls_phase := Reconnecting \<rparr>"
    by (simp add: step_def e)
  have s2: "step ?w sample_config ?r (initial \<lparr> ls_phase := Reconnecting \<rparr>)
        = emit [EvLog ERROR ''An error occurred in the listening loop. Attempting to reconnect in 30 seconds'',
                EvSleep 30, lost]
            (initial \<lparr> ls_phase := Connecting, ls_iter := Suc 0 \<rparr>)"
    by (simp add: step_def initial_def)
  have ph: "phases ?w sample_config ?r 2 ?s = [Polling, Reconnecting, Connecting]"
    by (simp add: numeral_2_eq_2 s1 s2 emit_def)
  have tr: "ls_trace (run ?w sample_config ?r 2 ?s)
     = [EvLog ERROR ''An error occurred in the listening loop. Attempting to reconnect in 30 seconds'',
        EvSleep 30, EvLog WARNING ''Connection lost or loop interrupted.'']"
    unfolding numeral_2_eq_2 run.simps s1 s2 by (simp add: emit_def initial_def lost_def)
  have sn: "ls_sent (run ?w sample_config ?r 2 ?s) = 0"
    unfolding numeral_2_eq_2 run.simps s1 s2 by (simp add: emit_def initial_def)
  from f g ph tr sn show ?thesis by (intro conjI)
qed

section \<open>Orchestrator: a failed delivery is logged and dropped\<close>





section \<open>Delivery client: the retry loop\<close>


lemma retries_after_allowed [simp]: "rt_allowed_methods (retries_after h) = DEFAULT_ALLOWED_METHODS"
  by (simp add: retries_after_def)







lemma attempts_simps [simp]:
  "attempts [] = 0"
  "attempts (EvPost k # evs) = Suc (attempts evs)"
  "attempts (EvSleep t # evs) = attempts evs"
  "attempts (EvLog lv m # evs) = attempts evs"
  "attempts (xs @ ys) = attempts xs + attempts ys"
  by (simp_all add: attempts_def)

lemma sleeps_append [simp]: "sleeps (xs @ ys) = sleeps xs @ sleeps ys"
  by (induction xs rule: sleeps.induct) simp_all


lemma backoffs_one [simp]: "backoffs h (Suc 0) = []"
  by (simp add: backoffs_def)


section \<open>Delivery client: what one call of send does\<close>

lemma RelayerService_init_Inr:
  "RelayerService_init (Some url) = Inr svc \<Longrightarrow>
   url \<noteq> [] \<and> rs_api_url svc = url
   \<and> rs_adapters svc = [(''https://'', retries), (''http://'', default_max_retries)]"
  by (auto simp: RelayerService_init_def mounted_adapters split: if_splits)

lemma get_adapter_mounted:
  "get_adapter [(''https://'', retries), (''http://'', default_max_retries)] url =
     (if startswith (lower url) ''https://'' then Some retries
      else if startswith (lower url) ''http://'' then Some default_max_retries
      else None)"
  by (simp add: get_adapter_def lower_def ascii_lower_def)




lemma sample_relayer_init:
  "url \<noteq> [] \<Longrightarrow> RelayerService_init (Some url) = Inr (sample_relayer url)"
  by (simp add: RelayerService_init_def sample_relayer_def)

lemma sample_adapter:
  "get_adapter (rs_adapters (sample_relayer url)) (rs_api_url (sample_relayer url)) =
     (if startswith (lower url) ''https://'' then Some retries
      else if startswith (lower url) ''http://'' then Some default_max_retries
      else None)"
  by (simp add: sample_relayer_def mounted_adapters get_adapter_mounted)

lemma sample_urls:
  "startswith (lower ''https://relayer.example/relay'') ''https://''"
  "\<not> startswith (lower ''http://relayer.example/relay'') ''https://''"
  "startswith (lower ''http://relayer.example/relay'') ''http://''"
  by (simp_all add: startswith_def lower_def ascii_lower_def)







text \<open>
  Claim C3. When the relayer URL is an HTTP or HTTPS URL and the endpoint answers the
  request with a failure status (400 to 599) other than 502, 503 and 504,
  \<open>relay_transaction_data\<close> makes exactly that one request, does not sleep, logs the
  failure and returns \<open>False\<close>.
\<close>

theorem non_transient_status_fails_at_once:
  assumes "RelayerService_init (Some url) = Inr svc"
    and "get_adapter (rs_adapters svc) (rs_api_url svc) \<noteq> None"
    and "http n = Responded resp"
    and "400 \<le> status_code resp" and "status_code resp < 600"
    and "status_code resp \<notin> {502, 503, 504}"
  shows "relay_transaction_data svc http ev n =
           (False, [EvLog INFO ''Relaying event data'', EvPost n,
                    EvLog ERROR ''Failed to relay transaction data''], Suc n)
       \<and> attempts (fst (snd (relay_transaction_data svc http ev n))) = 1
       \<and> sleeps (fst (snd (relay_transaction_data svc http ev n))) = []"
proof -
  note svc = RelayerService_init_Inr [OF assms(1)]
  from assms(2) svc obtain r where ga: "get_adapter (rs_adapters svc) (rs_api_url svc) = Some r"
    and r: "r = retries \<or> r = default_max_retries"
    by (auto simp: get_adapter_mounted split: if_splits)
  from r have "rt_allowed_methods r = DEFAULT_ALLOWED_METHODS" by auto
  then have u: "urlopen http r n = (Inr resp, [EvPost n], Suc n)"
    using assms(3) by (rule urlopen_responded)
  show ?thesis
    using assms(4,5) by (simp add: relay_transaction_data_def Let_def ga u raise_for_status_def
        relay_failed_def)
qed

theorem non_transient_status_fails_at_once_witness:
  "relay_transaction_data (sample_relayer ''https://relayer.example/relay'')
      (\<lambda>n. Responded (status_response 404)) sample_event 0 =
     (False, [EvLog INFO ''Relaying event data'', EvPost 0,
              EvLog ERROR ''Failed to relay transaction data''], Suc 0)
   \<and> attempts (fst (snd (relay_transaction_data (sample_relayer ''https://relayer.example/relay'')
        (\<lambda>n. Responded (status_response 404)) sample_event 0))) = 1"
proof -
  have i: "RelayerService_init (Some ''https://relayer.example/relay'')
           = Inr (sample_relayer ''https://relayer.example/relay'')"
    by (simp add: sample_relayer_init)
  have a: "get_adapter (rs_adapters (sample_relayer ''https://relayer.example/relay''))
             (rs_api_url (sample_relayer ''https://relayer.example/relay'')) \<noteq> None"
    by (simp add: sample_adapter sample_urls)
  have h: "(\<lambda>n::nat. Responded (status_response 404)) 0 = Responded (status_response 404)" by simp
  have s: "400 \<le> status_code (status_response 404)" "status_code (status_response 404) < 600"
    "status_code (status_response 404) \<notin> {502, 503, 504}"
    by (simp_all add: status_response_def)
  show ?thesis
    using non_transient_status_fails_at_once [OF i a h s, of sample_event] by simp
qed







section \<open>Orchestrator: connecting and reconnecting\<close>

lemma step_connecting:
  "ls_phase s = Connecting \<Longrightarrow>
   step w cfg relayer s =
     (if w_connect w (ls_iter s) = ConnOk
      then emit [EvLog INFO ''Attempting to connect to blockchain node'', EvConnect (ls_iter s),
                 EvLog INFO ''Successfully connected to chain'']
             (s \<lparr> ls_phase := Subscribing \<rparr>)
      else emit [EvLog INFO ''Attempting to connect to blockchain node'', EvConnect (ls_iter s),
                 EvLog ERROR ''An error occurred while connecting to the node'']
             (s \<lparr> ls_phase := Reconnecting \<rparr>))"
  by (cases "w_connect w (ls_iter s)") (simp_all add: step_def connect_def)

lemma step_reconnecting:
  "ls_phase s = Reconnecting \<Longrightarrow>
   step w cfg relayer s =
     emit [EvLog ERROR ''An error occurred in the listening loop. Attempting to reconnect in 30 seconds'',
           EvSleep 30, lost]
       (s \<lparr> ls_phase := Connecting, ls_iter := Suc (ls_iter s) \<rparr>)"
  by (simp add: step_def)

text \<open>
  Claim C6, as stated, fails: three failures of \<open>connect\<close> take the listener from
  \<open>Connecting\<close> to \<open>Reconnecting\<close> three times, not twice, before the fourth
  \<open>connect\<close> succeeds and the listener reaches \<open>Subscribing\<close>.
\<close>

theorem reconnect_count_counterexample:
  "phases (sample_world (\<lambda>k. if k < 3 then ConnNotLive else ConnOk) (\<lambda>k j. Some [])
             (\<lambda>n. Responded ok_response))
      sample_config (sample_relayer ''https://relayer.example/relay'') 7 initial
     = [Connecting, Reconnecting, Connecting, Reconnecting, Connecting, Reconnecting,
        Connecting, Subscribing]
   \<and> transitions Connecting Reconnecting
        (phases (sample_world (\<lambda>k. if k < 3 then ConnNotLive else ConnOk) (\<lambda>k j. Some [])
                   (\<lambda>n. Responded ok_response))
           sample_config (sample_relayer ''https://relayer.example/relay'') 7 initial) \<noteq> 2"
  by (simp add: numeral_eq_Suc initial_def step_connecting step_reconnecting emit_def sample_world_def)

text \<open>
  Claim C6, amended. When \<open>connect\<close> fails three times and then succeeds, the listener
  goes from \<open>Connecting\<close> to \<open>Reconnecting\<close> exactly three times before it reaches
  \<open>Subscribing\<close>, which it does after seven steps and not before; each visit of
  \<open>Reconnecting\<close> sleeps 30 seconds and leads back to \<open>Connecting\<close>, and these three
  sleeps are the only ones.
\<close>

theorem reconnect_after_failed_connects:
  assumes "\<forall>k<3. w_connect w k \<noteq> ConnOk" and "w_connect w 3 = ConnOk"
  shows "phases w cfg relayer 7 initial
           = [Connecting, Reconnecting, Connecting, Reconnecting, Connecting, Reconnecting,
              Connecting, Subscribing]
       \<and> transitions Connecting Reconnecting (phases w cfg relayer 7 initial) = 3
       \<and> ls_phase (run w cfg relayer 7 initial) = Subscribing
       \<and> sleeps (ls_trace (run w cfg relayer 7 initial)) = [30, 30, 30]
       \<and> (\<forall>s. ls_phase s = Reconnecting \<longrightarrow>
             ls_phase (step w cfg relayer s) = Connecting
             \<and> sleeps (ls_trace (step w cfg relayer s)) = sleeps (ls_trace s) @ [30])"
proof -
  have f: "w_connect w 0 \<noteq> ConnOk" "w_connect w (Suc 0) \<noteq> ConnOk" "w_connect w (Suc (Suc 0)) \<noteq> ConnOk"
    using assms(1) by (auto simp: numeral_eq_Suc)
  have s: "w_connect w (Suc (Suc (Suc 0))) = ConnOk"
    using assms(2) by (simp add: numeral_eq_Suc)
  have ph: "phases w cfg relayer 7 initial
           = [Connecting, Reconnecting, Connecting, Reconnecting, Connecting, Reconnecting,
              Connecting, Subscribing]"
    using f s by (simp add: numeral_eq_Suc initial_def step_connecting step_reconnecting emit_def)
  have rn: "ls_phase (run w cfg relayer 7 initial) = Subscribing
       \<and> sleeps (ls_trace (run w cfg relayer 7 initial)) = [30, 30, 30]"
    using f s by (simp add: numeral_eq_Suc initial_def step_connecting step_reconnecting emit_def lost_def)
  have each: "\<forall>s. ls_phase s = Reconnecting \<longrightarrow>
             ls_phase (step w cfg relayer s) = Connecting
             \<and> sleeps (ls_trace (step w cfg relayer s)) = sleeps (ls_trace s) @ [30]"
    by (simp add: step_reconnecting emit_def lost_def)
  show ?thesis
    using rn each by (simp add: ph)
qed

theorem reconnect_after_failed_connects_witness:
  "phases (sample_world (\<lambda>k. if k < 3 then ConnRaises else ConnOk) (\<lambda>k j. Some [])
             (\<lambda>n. Responded ok_response))
      sample_config (sample_relayer ''https://relayer.example/relay'') 7 initial
     = [Connecting, Reconnecting, Connecting, Reconnecting, Connecting, Reconnecting,
        Connecting, Subscribing]
   \<and> sleeps (ls_trace (run (sample_world (\<lambda>k. if k < 3 then ConnRaises else ConnOk) (\<lambda>k j. Some [])
             (\<lambda>n. Responded ok_response))
      sample_config (sample_relayer ''https://relayer.example/relay'') 7 initial)) = [30, 30, 30]"
proof -
  let ?w = "sample_world (\<lambda>k. if k < 3 then ConnRaises else ConnOk) (\<lambda>k j. Some [])
             (\<lambda>n. Responded ok_response)"
  have a: "\<forall>k<3. w_connect ?w k \<noteq> ConnOk" by (simp add: sample_world_def)
  have b: "w_connect ?w 3 = ConnOk" by (simp add: sample_world_def)
  show ?thesis
    using reconnect_after_failed_connects [OF a b, of sample_config "sample_relayer ''https://relayer.example/relay''"]
    by simp
qed

section \<open>Startup\<close>

text \<open>
  Claim C7. When one of the three required variables is unset (or empty), \<open>main\<close> logs
  that required variables are missing and which ones are required, and returns: no
  connection is attempted, the listener is never built or stepped, and nothing is
  retried, however long the program is observed.
\<close>

theorem missing_configuration_aborts:
  assumes "var \<in> set required_vars" and "falsy (getenv var)"
  shows "main getenv w n =
           ([EvLog ERROR ''One or more required environment variables are missing. Please check your .env file.'',
             EvLog ERROR ''Required: SOURCE_CHAIN_WSS_URL, BRIDGE_CONTRACT_ADDRESS, DESTINATION_RELAYER_API_URL''],
            Returned)
       \<and> \<not> list_ex is_connect (fst (main getenv w n))
       \<and> sleeps (fst (main getenv w n)) = []
       \<and> attempts (fst (main getenv w n)) = 0"
proof -
  from assms have "list_ex (\<lambda>v. falsy (getenv v)) required_vars"
    by (auto simp: list_ex_iff)
  then show ?thesis by (simp add: main_def)
qed

theorem missing_configuration_aborts_witness:
  "main (\<lambda>v. if v = ''BRIDGE_CONTRACT_ADDRESS'' then None else Some ''https://node.example'')
        (sample_world (\<lambda>k. ConnOk) (\<lambda>k j. Some []) (\<lambda>n. Responded ok_response)) 100 =
     ([EvLog ERROR ''One or more required environment variables are missing. Please check your .env file.'',
       EvLog ERROR ''Required: SOURCE_CHAIN_WSS_URL, BRIDGE_CONTRACT_ADDRESS, DESTINATION_RELAYER_API_URL''],
      Returned)"
proof -
  let ?env = "\<lambda>v. if v = ''BRIDGE_CONTRACT_ADDRESS'' then None else Some ''https://node.example''"
  have a: "''BRIDGE_CONTRACT_ADDRESS'' \<in> set required_vars" by (simp add: required_vars_def)
  have b: "falsy (?env ''BRIDGE_CONTRACT_ADDRESS'')" by (simp add: falsy_def)
  show ?thesis
    using missing_configuration_aborts [of "''BRIDGE_CONTRACT_ADDRESS''" ?env, OF a b] by simp
qed

section \<open>Chain connector: get_contract\<close>

text \<open>
  Claim C8, as stated, fails for a handle that is not connected and an address that is
  not well formed: \<open>get_contract\<close> checks the connection first and raises
  \<open>ConnectionError\<close>, not the validation error.
\<close>

theorem get_contract_counterexample:
  "sample_to_checksum_address ''not-an-address'' = None
   \<and> snd (get_contract sample_to_checksum_address False ''not-an-address'' BRIDGE_CONTRACT_ABI)
       = Inl ConnectionError
   \<and> snd (get_contract sample_to_checksum_address False ''not-an-address'' BRIDGE_CONTRACT_ABI)
       \<noteq> Inl ValueError"
  by (simp add: get_contract_def sample_to_checksum_address_def sample_is_address_def)

text \<open>
  Claim C8, amended. For every handle and address, \<open>get_contract\<close> fails with
  \<open>ConnectionError\<close> when the handle is not connected; when the handle is connected it
  fails with the validation error (\<open>ValueError\<close>) if the address is not a well-formed
  chain address and otherwise returns a contract handle that binds the schema to the
  checksummed address.
\<close>

theorem get_contract_outcomes:
  "snd (get_contract to_checksum_address is_connected address abi) =
     (if \<not> is_connected then Inl ConnectionError
      else case to_checksum_address address of
             None \<Rightarrow> Inl ValueError
           | Some checksum_address \<Rightarrow> Inr \<lparr> ct_address = checksum_address, ct_abi = abi \<rparr>)"
  by (simp add: get_contract_def split: option.splits)

theorem get_contract_outcomes_witness:
  "snd (get_contract sample_to_checksum_address True ''0x0000000000000000000000000000000000000123''
          BRIDGE_CONTRACT_ABI)
     = Inr \<lparr> ct_address = ''0x0000000000000000000000000000000000000123'', ct_abi = BRIDGE_CONTRACT_ABI \<rparr>
   \<and> snd (get_contract sample_to_checksum_address True ''not-an-address'' BRIDGE_CONTRACT_ABI)
     = Inl ValueError
   \<and> snd (get_contract sample_to_checksum_address False ''0x0000000000000000000000000000000000000123''
          BRIDGE_CONTRACT_ABI)
     = Inl ConnectionError"
  using get_contract_outcomes [of sample_to_checksum_address True "''0x0000000000000000000000000000000000000123''" BRIDGE_CONTRACT_ABI]
    get_contract_outcomes [of sample_to_checksum_address True "''not-an-address''" BRIDGE_CONTRACT_ABI]
    get_contract_outcomes [of sample_to_checksum_address False "''0x0000000000000000000000000000000000000123''" BRIDGE_CONTRACT_ABI]
  by (simp add: sample_to_checksum_address_def sample_is_address_def)

section \<open>Unit converter: digits\<close>

lemma len_int_small: "c < 10 \<Longrightarrow> len_int c = 1"
  by (simp add: len_int_def str_nat_small)

lemma len_int_step: "10 \<le> c \<Longrightarrow> len_int c = Suc (len_int (c div 10))"
  by (simp add: len_int_def str_nat_step)

lemma len_int_pos: "0 < len_int c"
  by (cases "c < 10") (simp_all add: len_int_small len_int_step)

lemma len_int_le: "c < 10 ^ n \<Longrightarrow> 0 < n \<Longrightarrow> len_int c \<le> n"
proof (induction n arbitrary: c)
  case 0
  then show ?case by simp
next
  case (Suc n)
  show ?case
  proof (cases "c < 10")
    case True
    then show ?thesis by (simp add: len_int_small)
  next
    case False
    then have n: "0 < n" using Suc.prems(1) by (cases n) auto
    have "c div 10 < 10 ^ n" using Suc.prems(1) by (simp add: less_mult_imp_div_less mult.commute)
    with Suc.IH n have "len_int (c div 10) \<le> n" by simp
    with False show ?thesis by (simp add: len_int_step)
  qed
qed

lemma len_int_ge: "10 ^ n \<le> c \<Longrightarrow> n < len_int c"
proof (induction n arbitrary: c)
  case 0
  then show ?case by (simp add: len_int_pos)
next
  case (Suc n)
  then have c: "10 \<le> c"
    by (metis le_trans one_le_numeral one_le_power power_Suc mult.right_neutral mult_le_mono2)
  have "10 ^ n \<le> c div 10" using Suc.prems by (simp add: less_eq_div_iff_mult_less_eq mult.commute)
  with Suc.IH have "n < len_int (c div 10)" by simp
  with c show ?case by (simp add: len_int_step)
qed

lemma len_int_eq: "10 ^ n \<le> c \<Longrightarrow> c < 10 ^ Suc n \<Longrightarrow> len_int c = Suc n"
  using len_int_ge [of n c] len_int_le [of c "Suc n"] by simp

lemma len_int_less: "0 < c \<Longrightarrow> c < 10 ^ len_int c"
proof (induction c rule: less_induct)
  case (less c)
  show ?case
  proof (cases "c < 10")
    case True
    then show ?thesis by (simp add: len_int_small)
  next
    case False
    then have "c div 10 < 10 ^ len_int (c div 10)"
      using less.IH [of "c div 10"] by simp
    then have "c < 10 * 10 ^ len_int (c div 10)"
      by (metis div_less_iff_less_mult mult.commute zero_less_numeral)
    with False show ?thesis by (simp add: len_int_step)
  qed
qed

lemma len_int_power: "10 ^ (len_int c - 1) \<le> c \<or> c = 0"
proof (cases "c = 0")
  case True
  then show ?thesis by simp
next
  case False
  have "10 ^ (len_int c - 1) \<le> c"
  proof (rule ccontr)
    assume "\<not> 10 ^ (len_int c - 1) \<le> c"
    then have lt: "c < 10 ^ (len_int c - 1)" by simp
    show False
    proof (cases "len_int c - 1 = 0")
      case True
      with lt False show False by simp
    next
      case False
      with lt have "len_int c \<le> len_int c - 1" by (intro len_int_le) simp_all
      with len_int_pos [of c] show False by simp
    qed
  qed
  then show ?thesis ..
qed

section \<open>Unit converter: values that rounding leaves alone\<close>

lemma dec_fix_zero:
  "d_int d = 0 \<Longrightarrow> dec_fix d = Inr (d \<lparr> d_exp := min (max (d_exp d) Etiny) Emax \<rparr>)"
  by (simp add: dec_fix_def)

lemma dec_fix_overflow:
  "d_int d \<noteq> 0 \<Longrightarrow> Etop < int (len_int (d_int d)) + d_exp d - int ctx_prec \<Longrightarrow>
   dec_fix d = Inl Overflow"
  by (simp add: dec_fix_def Let_def)

lemma dec_fix_keep:
  "d_int d \<noteq> 0 \<Longrightarrow> \<not> Etop < int (len_int (d_int d)) + d_exp d - int ctx_prec \<Longrightarrow>
   \<not> d_exp d < exp_min_of d \<Longrightarrow> dec_fix d = Inr d"
  by (simp add: dec_fix_def Let_def exp_min_of_def)

lemma dec_fix_round:
  "d_int d \<noteq> 0 \<Longrightarrow> \<not> Etop < int (len_int (d_int d)) + d_exp d - int ctx_prec \<Longrightarrow>
   d_exp d < exp_min_of d \<Longrightarrow>
   dec_fix d =
     (let digits0 = int (len_int (d_int d)) + d_exp d - exp_min_of d;
          self_int = (if digits0 < 0 then 1 else d_int d);
          digits = (if digits0 < 0 then 0 else nat digits0);
          k = len_int self_int - digits;
          changed = round_half_even self_int k (digits = 0);
          coeff = self_int div 10 ^ k;
          carried = (0 < changed \<and> ctx_prec < len_int (coeff + 1));
          coeff' = (if 0 < changed
                    then (if carried then (coeff + 1) div 10 else coeff + 1)
                    else coeff);
          exp_min' = (if carried then exp_min_of d + 1 else exp_min_of d)
      in if Etop < exp_min' then Inl Overflow
         else Inr \<lparr> d_sign = d_sign d, d_int = coeff', d_exp = exp_min' \<rparr>)"
  by (simp add: dec_fix_def Let_def exp_min_of_def)

lemma Etiny_le_Etop: "Etiny \<le> Etop" and Etop_le_Emax: "Etop \<le> Emax" and Etiny_le_Emax: "Etiny \<le> Emax"
  by (simp_all add: Etiny_def Etop_def Emin_def Emax_def ctx_prec_def)

lemma dec_fix_fixed: "fixed d \<Longrightarrow> dec_fix d = Inr d"
proof (cases "d_int d = 0")
  case True
  assume "fixed d"
  with True have "min (max (d_exp d) Etiny) Emax = d_exp d" by (simp add: fixed_def)
  with True show ?thesis by (simp add: dec_fix_zero)
next
  case False
  assume "fixed d"
  with False have f: "len_int (d_int d) \<le> ctx_prec" "Etiny \<le> d_exp d"
    "int (len_int (d_int d)) + d_exp d - int ctx_prec \<le> Etop"
    by (simp_all add: fixed_def)
  from f(1,2) have "\<not> d_exp d < exp_min_of d" by (simp add: exp_min_of_def)
  with False f(3) show ?thesis by (simp add: dec_fix_keep)
qed

lemma kept_digits_bound:
  assumes "0 < c" and "digits \<le> len_int c" and "digits \<le> ctx_prec"
  shows "c div 10 ^ (len_int c - digits) < 10 ^ ctx_prec"
proof -
  have "c < 10 ^ len_int c" using assms(1) by (rule len_int_less)
  also have "(10::nat) ^ len_int c = 10 ^ (len_int c - digits) * 10 ^ digits"
    using assms(2) by (simp add: power_add [symmetric])
  finally have "c div 10 ^ (len_int c - digits) < 10 ^ digits"
    by (simp add: less_mult_imp_div_less mult.commute)
  also have "(10::nat) ^ digits \<le> 10 ^ ctx_prec"
    using assms(3) by (simp add: power_increasing)
  finally show ?thesis .
qed

lemma exp_min_of_bounds: "Etiny \<le> exp_min_of d"
  "int (len_int (d_int d)) + d_exp d - int ctx_prec \<le> exp_min_of d"
  by (simp_all add: exp_min_of_def)

lemma exp_min_of_Etop:
  "\<not> Etop < int (len_int (d_int d)) + d_exp d - int ctx_prec \<Longrightarrow> exp_min_of d \<le> Etop"
  using Etiny_le_Etop by (simp add: exp_min_of_def)

lemma dec_fix_result_fixed:
  assumes "dec_fix d = Inr w"
  shows "fixed w"
proof (cases "d_int d = 0")
  case True
  with assms have "w = d \<lparr> d_exp := min (max (d_exp d) Etiny) Emax \<rparr>"
    by (simp add: dec_fix_zero)
  with True Etiny_le_Emax show ?thesis
    by (simp add: fixed_def)
next
  case nz: False
  have no: "\<not> Etop < int (len_int (d_int d)) + d_exp d - int ctx_prec"
    using assms nz dec_fix_overflow [of d] by auto
  show ?thesis
  proof (cases "d_exp d < exp_min_of d")
    case False
    with assms nz no have w: "w = d" by (simp add: dec_fix_keep)
    from False exp_min_of_bounds [of d] have "len_int (d_int d) \<le> ctx_prec" "Etiny \<le> d_exp d"
      by simp_all
    with no nz show ?thesis
      by (simp add: fixed_def w)
  next
    case True
    define digits0 where "digits0 = int (len_int (d_int d)) + d_exp d - exp_min_of d"
    define self_int where "self_int = (if digits0 < 0 then 1 else d_int d)"
    define digits where "digits = (if digits0 < 0 then 0 else nat digits0)"
    define k where "k = len_int self_int - digits"
    define changed where "changed = round_half_even self_int k (digits = 0)"
    define coeff where "coeff = self_int div 10 ^ k"
    define carried where "carried = (0 < changed \<and> ctx_prec < len_int (coeff + 1))"
    define coeff' where "coeff' = (if 0 < changed
                                then (if carried then (coeff + 1) div 10 else coeff + 1)
                                else coeff)"
    define exp_min' where "exp_min' = (if carried then exp_min_of d + 1 else exp_min_of d)"
    have "dec_fix d = (if Etop < exp_min' then Inl Overflow
         else Inr \<lparr> d_sign = d_sign d, d_int = coeff', d_exp = exp_min' \<rparr>)"
      unfolding dec_fix_round [OF nz no True] Let_def
      by (simp only: digits0_def self_int_def digits_def k_def changed_def coeff_def carried_def
          coeff'_def exp_min'_def)
    with assms have res: "\<not> Etop < exp_min'"
      and w: "w = \<lparr> d_sign = d_sign d, d_int = coeff', d_exp = exp_min' \<rparr>"
      by (auto split: if_splits)
    have cb: "coeff < 10 ^ ctx_prec"
    proof (cases "digits0 < 0")
      case True
      then show ?thesis
        by (simp add: coeff_def self_int_def k_def digits_def len_int_small)
    next
      case False
      have d1: "digits \<le> len_int (d_int d)"
        using False True by (simp add: digits_def digits0_def)
      have d2: "digits \<le> ctx_prec"
        using False exp_min_of_bounds(2) [of d] by (simp add: digits_def digits0_def)
      show ?thesis
        using kept_digits_bound [of "d_int d" digits] nz d1 d2 False
        by (simp add: coeff_def self_int_def k_def)
    qed
    have lb: "len_int coeff' \<le> ctx_prec"
    proof (cases "0 < changed")
      case False
      then have "coeff' = coeff" by (simp add: coeff'_def)
      with cb show ?thesis by (simp add: len_int_le ctx_prec_def)
    next
      case ch: True
      show ?thesis
      proof (cases carried)
        case False
        with ch show ?thesis by (simp add: coeff'_def carried_def)
      next
        case True
        from cb have "coeff + 1 \<le> 10 ^ ctx_prec" by simp
        then have "(coeff + 1) div 10 < 10 ^ ctx_prec"
          by (simp add: ctx_prec_def)
        with True ch show ?thesis by (simp add: coeff'_def len_int_le ctx_prec_def)
      qed
    qed
    have e1: "Etiny \<le> exp_min'" using exp_min_of_bounds(1) [of d] by (simp add: exp_min'_def)
    have e2: "exp_min' \<le> Etop" using res by simp
    show ?thesis
      using lb e1 e2 Etop_le_Emax
      by (auto simp: fixed_def w)
  qed
qed

section \<open>Unit converter: multiplying and dividing by a unit\<close>

lemma strip_zeros_power:
  "strip_zeros (c * 10 ^ n) (ideal_exp - int n) ideal_exp = (c, ideal_exp)"
proof (induction n)
  case 0
  then show ?case by (simp add: strip_zeros.simps [of c ideal_exp ideal_exp])
next
  case (Suc n)
  have "strip_zeros (c * 10 ^ Suc n) (ideal_exp - int (Suc n)) ideal_exp
        = strip_zeros (c * 10 ^ n) (ideal_exp - int (Suc n) + 1) ideal_exp"
    by (subst strip_zeros.simps) simp
  also have "ideal_exp - int (Suc n) + 1 = ideal_exp - int n" by simp
  finally show ?case using Suc.IH by simp
qed

lemma decimal_with_exp:
  "\<lparr> d_sign = d_sign d, d_int = d_int d, d_exp = x \<rparr> = d \<lparr> d_exp := x \<rparr>"
  by (cases d) simp

lemma dec_mul_power_of_ten:
  "dec_mul d (power_of_ten e) = dec_fix (d \<lparr> d_exp := d_exp d + e \<rparr>)"
  by (simp add: dec_mul_def power_of_ten_def decimal_with_exp)

lemma dec_div_power_of_ten:
  assumes "fixed d"
  shows "dec_div d (power_of_ten e) = dec_fix (d \<lparr> d_exp := d_exp d - e \<rparr>)"
proof (cases "d_int d = 0")
  case True
  have "dec_div d (power_of_ten e)
        = dec_fix \<lparr> d_sign = d_sign d, d_int = d_int d, d_exp = d_exp d - e \<rparr>"
    using True by (simp add: dec_div_def power_of_ten_def)
  then show ?thesis by (simp only: decimal_with_exp)
next
  case False
  with assms have len: "len_int (d_int d) \<le> ctx_prec" by (simp add: fixed_def)
  define n where "n = Suc (Suc ctx_prec) - len_int (d_int d)"
  have shift: "int (len_int (d_int (power_of_ten e))) - int (len_int (d_int d)) + int ctx_prec + 1 = int n"
    using len by (simp add: n_def len_int_small power_of_ten_def)
  have st: "strip_zeros (d_int d * 10 ^ n) (d_exp d - e - int n) (d_exp d - e) = (d_int d, d_exp d - e)"
    by (rule strip_zeros_power)
  from False st show ?thesis
    unfolding dec_div_def Let_def shift
    by (simp add: power_of_ten_def decimal_with_exp)
qed

lemma valid_unit:
  "map_of ETH_UNITS u = Some f \<Longrightarrow> \<exists>e. f = power_of_ten e \<and> 0 \<le> e \<and> e \<le> 18"
  by (auto simp: ETH_UNITS_def split: if_splits)

lemma convert_eth_unit_eq:
  assumes "map_of ETH_UNITS (lower from_unit) = Some (power_of_ten a)"
    and "map_of ETH_UNITS (lower to_unit) = Some (power_of_ten b)"
  shows "convert_eth_unit v from_unit to_unit =
     (case dec_fix ((to_decimal v) \<lparr> d_exp := d_exp (to_decimal v) + a \<rparr>) of
        Inl s \<Rightarrow> Inl (Signalled s)
      | Inr w \<Rightarrow>
          (case dec_fix (w \<lparr> d_exp := d_exp w - b \<rparr>) of
             Inl s \<Rightarrow> Inl (Signalled s)
           | Inr r \<Rightarrow> Inr r))"
  using assms
  by (auto simp: convert_eth_unit_def Let_def dec_mul_power_of_ten dec_div_power_of_ten
      dec_fix_result_fixed split: sum.splits)

section \<open>Unit converter: the three laws\<close>

lemma is_unit_factor:
  "is_unit u \<Longrightarrow> \<exists>e. map_of ETH_UNITS (lower u) = Some (power_of_ten e) \<and> 0 \<le> e \<and> e \<le> 18"
proof -
  assume "is_unit u"
  then obtain f where f: "map_of ETH_UNITS (lower u) = Some f"
    unfolding is_unit_def by (metis map_of_eq_None_iff not_None_eq image_set)
  with valid_unit [OF f] show ?thesis by auto
qed

lemma wei_factor: "map_of ETH_UNITS (lower ''wei'') = Some (power_of_ten 0)"
  by (simp add: ETH_UNITS_def lower_def ascii_lower_def)

lemma ether_factor: "map_of ETH_UNITS (lower ''ether'') = Some (power_of_ten 18)"
  by (simp add: ETH_UNITS_def lower_def ascii_lower_def)

lemma Etiny_neg: "Etiny \<le> 0" and Etop_big: "18 \<le> Etop"
  by (simp_all add: Etiny_def Etop_def Emin_def Emax_def ctx_prec_def)

lemma fixed_small:
  assumes "c < 10 ^ ctx_prec" and "0 \<le> e" and "e \<le> 18"
  shows "fixed \<lparr> d_sign = s, d_int = c, d_exp = e \<rparr>"
proof -
  have "len_int c \<le> ctx_prec" using assms(1) by (simp add: len_int_le ctx_prec_def)
  moreover have "Etiny \<le> e" "e \<le> Emax" "e \<le> Etop"
    using assms(2,3) Etiny_neg Etop_big Etop_le_Emax by simp_all
  ultimately show ?thesis by (simp add: fixed_def)
qed

text \<open>One ether is \<open>10^18\<close> wei.\<close>

lemma convert_one_ether:
  "convert_eth_unit (PyInt 1) ''ether'' ''wei'' = Inr (power_of_ten 18)
   \<and> dec_eq_int (power_of_ten 18) (10 ^ 18)"
proof -
  have f: "fixed \<lparr> d_sign = False, d_int = 1, d_exp = 18 \<rparr>"
    by (rule fixed_small) (simp_all add: ctx_prec_def)
  show ?thesis
    using f by (simp add: convert_eth_unit_eq [OF ether_factor wei_factor] dec_fix_fixed
        power_of_ten_def dec_eq_int_def signed_int_def)
qed

text \<open>
  Converting an integer of at most 28 digits from a unit to the same unit gives the
  integer back.
\<close>

lemma convert_identity_28_digits:
  assumes "is_unit u" and "\<bar>x\<bar> < 10 ^ 28"
  shows "convert_eth_unit (PyInt x) u u = Inr (to_decimal (PyInt x))
       \<and> dec_eq_int (to_decimal (PyInt x)) x"
proof -
  from is_unit_factor [OF assms(1)] obtain e
    where e: "map_of ETH_UNITS (lower u) = Some (power_of_ten e)" "0 \<le> e" "e \<le> 18" by blast
  have c: "nat \<bar>x\<bar> < 10 ^ ctx_prec"
    using assms(2) by (simp add: ctx_prec_def nat_less_iff)
  have f1: "fixed \<lparr> d_sign = (x < 0), d_int = nat \<bar>x\<bar>, d_exp = e \<rparr>"
    using c e(2,3) by (rule fixed_small)
  have f0: "fixed \<lparr> d_sign = (x < 0), d_int = nat \<bar>x\<bar>, d_exp = 0 \<rparr>"
    using c by (rule fixed_small) simp_all
  show ?thesis
    using f0 f1 by (simp add: convert_eth_unit_eq [OF e(1) e(1)] dec_fix_fixed
        dec_eq_int_def signed_int_def)
qed

text \<open>
  Converting through wei composes, for every value and every two units: the two sides
  raise the same signal or give the same \<open>Decimal\<close>.
\<close>

lemma convert_through_wei:
  assumes "is_unit u1" and "is_unit u2"
  shows "(case convert_eth_unit v u1 ''wei'' of
            Inl err \<Rightarrow> Inl err
          | Inr w \<Rightarrow> convert_eth_unit (PyDecimal w) ''wei'' u2)
         = convert_eth_unit v u1 u2"
proof -
  from is_unit_factor [OF assms(1)] obtain a
    where a: "map_of ETH_UNITS (lower u1) = Some (power_of_ten a)" by blast
  from is_unit_factor [OF assms(2)] obtain b
    where b: "map_of ETH_UNITS (lower u2) = Some (power_of_ten b)" by blast
  show ?thesis
  proof (cases "dec_fix ((to_decimal v) \<lparr> d_exp := d_exp (to_decimal v) + a \<rparr>)")
    case (Inl s)
    then show ?thesis
      by (simp add: convert_eth_unit_eq [OF a wei_factor] convert_eth_unit_eq [OF a b])
  next
    case (Inr w)
    then have "fixed w" by (rule dec_fix_result_fixed)
    then have w: "dec_fix w = Inr w" by (rule dec_fix_fixed)
    show ?thesis
      using Inr w
      by (simp add: convert_eth_unit_eq [OF a wei_factor] convert_eth_unit_eq [OF a b]
          convert_eth_unit_eq [OF wei_factor b])
  qed
qed

lemma len_int_29: "len_int 10000000000000000000000000001 = 29"
proof -
  have "len_int 10000000000000000000000000001 = Suc 28"
    by (rule len_int_eq) simp_all
  then show ?thesis by simp
qed

lemma dec_fix_29_digits:
  "dec_fix \<lparr> d_sign = False, d_int = 10000000000000000000000000001, d_exp = 0 \<rparr>
     = Inr \<lparr> d_sign = False, d_int = 1000000000000000000000000000, d_exp = 1 \<rparr>"
proof -
  let ?d = "\<lparr> d_sign = False, d_int = 10000000000000000000000000001, d_exp = 0 \<rparr>"
  have em: "exp_min_of ?d = 1"
    by (simp add: exp_min_of_def len_int_29 ctx_prec_def Etiny_def Emin_def)
  have nz: "d_int ?d \<noteq> 0" by simp
  have no: "\<not> Etop < int (len_int (d_int ?d)) + d_exp ?d - int ctx_prec"
    by (simp add: len_int_29 ctx_prec_def Etop_def Emax_def)
  have lt: "d_exp ?d < exp_min_of ?d" by (simp add: em)
  show ?thesis
    unfolding dec_fix_round [OF nz no lt] em
    by (simp add: Let_def len_int_29 round_half_even_def ctx_prec_def Etop_def Emax_def)
qed

text \<open>
  Claim C9 at an integer of 29 digits: converting \<open>10^28 + 1\<close> from wei to wei gives
  \<open>1.000000000000000000000000000E+28\<close>, which is not the integer. The multiplication
  by the factor of the unit rounds to the 28 digits of the default context.
\<close>

theorem convert_identity_29_digits:
  "convert_eth_unit (PyInt 10000000000000000000000000001) ''wei'' ''wei''
     = Inr \<lparr> d_sign = False, d_int = 1000000000000000000000000000, d_exp = 1 \<rparr>
   \<and> \<not> dec_eq_int \<lparr> d_sign = False, d_int = 1000000000000000000000000000, d_exp = 1 \<rparr>
          10000000000000000000000000001
   \<and> is_unit ''wei''"
proof -
  have f: "fixed \<lparr> d_sign = False, d_int = 1000000000000000000000000000, d_exp = 1 \<rparr>"
    by (rule fixed_small) (simp_all add: ctx_prec_def)
  have u: "is_unit ''wei''"
    by (simp add: is_unit_def ETH_UNITS_def lower_def ascii_lower_def)
  show ?thesis
    using f u
    by (simp add: convert_eth_unit_eq [OF wei_factor wei_factor] dec_fix_29_digits dec_fix_fixed
        dec_eq_int_def signed_int_def)
qed

end
